theory Spec2Isabelle
  imports Main
begin

section \<open>Python values shared by the scripts\<close>

text \<open>
  The repository is four independent command-line scripts, each a straight line of calls
  into a third-party library (ultralytics, tensorflow, tensorrt, mediapipe/tflite2onnx)
  wrapped in argument handling, prints, \<^verbatim>\<open>try/except\<close> blocks and a process exit
  status. The library calls are opaque: each script is modelled over an environment record
  whose fields say what every external call returns or raises, so a theorem holds for every
  behaviour of the libraries. What the scripts themselves compute (strings, control flow,
  the order of calls, what is printed, what is written, the exit status) is modelled as
  written.
\<close>

text \<open>
  Exceptions. \<^verbatim>\<open>except ImportError\<close> also catches \<^verbatim>\<open>ModuleNotFoundError\<close>, its
  subclass, so a missing package is \<open>ImportError\<close>. Each exception carries the text of
  \<^verbatim>\<open>str(e)\<close>. \<open>OtherException\<close> stands for every other subclass of \<^verbatim>\<open>Exception\<close>.
\<close>

datatype exn =
    ImportError string
  | KeyError string
  | ValueError string
  | FileNotFoundError string
  | OtherException string

fun exn_str :: "exn \<Rightarrow> string" where
  "exn_str (ImportError m) = m"
| "exn_str (KeyError m) = m"
| "exn_str (ValueError m) = m"
| "exn_str (FileNotFoundError m) = m"
| "exn_str (OtherException m) = m"

fun is_ImportError :: "exn \<Rightarrow> bool" where
  "is_ImportError (ImportError m) = True"
| "is_ImportError e = False"

text \<open>
  How a run of the interpreter ends: \<^verbatim>\<open>sys.exit(n)\<close> (falling off the end of the script
  is \<open>Exit 0\<close>), or an exception nobody caught, for which Python prints a traceback and
  exits with status 1.
\<close>

datatype outcome = Exit int | Uncaught exn

fun exit_status :: "outcome \<Rightarrow> int" where
  "exit_status (Exit n) = n"
| "exit_status (Uncaught e) = 1"

text \<open>
  The layers of the two hand-built networks of \<^verbatim>\<open>download_tflite_model.py\<close>, with the
  arguments the source passes: \<open>Conv2D filters kernel_size activation padding\<close> (padding
  \<open>None\<close> where the call leaves it out), \<open>MaxPooling2D pool_size\<close>,
  \<open>Conv2DTranspose filters kernel_size strides activation padding\<close>.
\<close>

datatype layer =
    Conv2D nat nat string "string option"
  | MaxPooling2D nat
  | Conv2DTranspose nat nat nat string "string option"

text \<open>
  The external calls a run makes, in order: the trace. A model handed to the TensorFlow
  Lite converter is either the object \<^verbatim>\<open>hub.load\<close> returned (with the keys of its
  \<^verbatim>\<open>signatures\<close> mapping) or a Keras model (its layers).
\<close>

datatype tf_model = Hub_model "string list" | Keras_model "layer list"

datatype call =
    YOLO_call string
  | Export_call string nat nat
  | Hub_load_call string
  | Keras_Model_call "layer list"
  | From_concrete_functions_call string
  | From_keras_model_call tf_model
  | Convert_call
  | Interpreter_call string
  | Logger_call
  | Builder_call
  | Create_network_call nat
  | OnnxParser_call
  | Parse_call string
  | Create_builder_config_call
  | Set_memory_pool_limit_call nat
  | Set_flag_FP16_call
  | Build_serialized_network_call
  | Open_rb_call string
  | Open_wb_call string

text \<open>
  The world a script runs in: the regular files (path to content), what has been printed
  (one entry per \<^verbatim>\<open>print\<close> call; an entry may hold newlines) and the trace.
\<close>

record world =
  files :: "string \<rightharpoonup> string"
  stdout :: "string list"
  calls :: "call list"

text \<open>
  A statement of the script: it runs in a world and either returns a value or raises,
  leaving a new world.
\<close>

type_synonym ('a, 's) stmt = "'s \<Rightarrow> (exn + 'a) \<times> 's"

type_synonym 'a prog = "('a, world) stmt"

definition ret :: "'a \<Rightarrow> ('a, 's) stmt" where
  "ret x w = (Inr x, w)"

definition throw :: "exn \<Rightarrow> ('a, 's) stmt" where
  "throw e w = (Inl e, w)"

text \<open>One statement after another: an exception ends the sequence.\<close>

definition seq :: "('a, 's) stmt \<Rightarrow> ('a \<Rightarrow> ('b, 's) stmt) \<Rightarrow> ('b, 's) stmt" where
  "seq m f w = (case m w of (Inl e, w') \<Rightarrow> (Inl e, w') | (Inr x, w') \<Rightarrow> f x w')"

text \<open>\<^verbatim>\<open>try: m except Exception as e: h(e)\<close>; a handler for one class re-raises the others.\<close>

definition catch :: "('a, 's) stmt \<Rightarrow> (exn \<Rightarrow> ('a, 's) stmt) \<Rightarrow> ('a, 's) stmt" where
  "catch m h w = (case m w of (Inl e, w') \<Rightarrow> h e w' | (Inr x, w') \<Rightarrow> (Inr x, w'))"

text \<open>An \<^verbatim>\<open>import\<close> statement: it raises what the environment says, or nothing.\<close>

definition import_module :: "exn option \<Rightarrow> (unit, 's) stmt" where
  "import_module r = (case r of None \<Rightarrow> ret () | Some e \<Rightarrow> throw e)"

definition print :: "string \<Rightarrow> unit prog" where
  "print s w = (Inr (), w\<lparr>stdout := stdout w @ [s]\<rparr>)"

definition print_all :: "string list \<Rightarrow> unit prog" where
  "print_all ss w = (Inr (), w\<lparr>stdout := stdout w @ ss\<rparr>)"

definition extern :: "call \<Rightarrow> exn + 'a \<Rightarrow> 'a prog" where
  "extern c r w = (r, w\<lparr>calls := calls w @ [c]\<rparr>)"

definition raises :: "call \<Rightarrow> exn option \<Rightarrow> unit prog" where
  "raises c r = extern c (case r of None \<Rightarrow> Inr () | Some e \<Rightarrow> Inl e)"

text \<open>
  The script's last line, \<^verbatim>\<open>sys.exit(0 if success else 1)\<close>, and the traceback of an
  exception that reaches the top level.
\<close>

definition sys_exit :: "bool prog \<Rightarrow> world \<Rightarrow> outcome \<times> world" where
  "sys_exit p w =
     (case p w of
        (Inr success, w') \<Rightarrow> (Exit (if success then 0 else 1), w')
      | (Inl e, w') \<Rightarrow> (Uncaught e, w'))"

subsection \<open>Files\<close>

text \<open>\<^verbatim>\<open>os.path.exists(p)\<close> and \<^verbatim>\<open>Path(p).exists()\<close>.\<close>

definition path_exists :: "string \<Rightarrow> bool prog" where
  "path_exists p w = (Inr (files w p \<noteq> None), w)"

text \<open>\<^verbatim>\<open>os.path.getsize(p)\<close>, in bytes.\<close>

definition getsize :: "string \<Rightarrow> nat prog" where
  "getsize p w =
     (case files w p of
        None \<Rightarrow> (Inl (FileNotFoundError p), w)
      | Some content \<Rightarrow> (Inr (length content), w))"

text \<open>\<^verbatim>\<open>with open(p, 'rb') as f: f.read()\<close>.\<close>

definition read_file :: "string \<Rightarrow> string prog" where
  "read_file p w =
     (case files w p of
        None \<Rightarrow> (Inl (FileNotFoundError p), w\<lparr>calls := calls w @ [Open_rb_call p]\<rparr>)
      | Some content \<Rightarrow> (Inr content, w\<lparr>calls := calls w @ [Open_rb_call p]\<rparr>))"

text \<open>
  \<^verbatim>\<open>with open(p, 'wb') as f: f.write(data)\<close>. The operating system decides how it goes:
  the open can fail, leaving the path as it was; the open can succeed, which creates or
  truncates the file, and then the write either completes or fails after some bytes.
\<close>

datatype wresult = Written | Open_failed exn | Write_failed exn nat

definition write_file :: "(string \<Rightarrow> string \<Rightarrow> wresult) \<Rightarrow> string \<Rightarrow> string \<Rightarrow> unit prog" where
  "write_file os p data w =
     (case os p data of
        Written \<Rightarrow>
          (Inr (), w\<lparr>files := (files w)(p \<mapsto> data), calls := calls w @ [Open_wb_call p]\<rparr>)
      | Open_failed e \<Rightarrow>
          (Inl e, w\<lparr>calls := calls w @ [Open_wb_call p]\<rparr>)
      | Write_failed e n \<Rightarrow>
          (Inl e, w\<lparr>files := (files w)(p \<mapsto> take n data), calls := calls w @ [Open_wb_call p]\<rparr>))"

subsection \<open>Strings\<close>

definition nl :: string where
  "nl = [CHR 0x0A]"

text \<open>The check mark U+2713 and the ballot cross U+2717 of the source, in UTF-8.\<close>

definition check_mark :: string where
  "check_mark = [CHR 0xE2, CHR 0x9C, CHR 0x93]"

definition cross_mark :: string where
  "cross_mark = [CHR 0xE2, CHR 0x9C, CHR 0x97]"

definition quote :: string where
  "quote = [CHR 0x27]"

text \<open>\<^verbatim>\<open>s.startswith(p)\<close>, \<^verbatim>\<open>s.endswith(suf)\<close> and \<^verbatim>\<open>sub in s\<close>.\<close>

definition startswith :: "string \<Rightarrow> string \<Rightarrow> bool" where
  "startswith s p = (take (length p) s = p)"

definition endswith :: "string \<Rightarrow> string \<Rightarrow> bool" where
  "endswith s suf = (length suf \<le> length s \<and> drop (length s - length suf) s = suf)"

fun contains :: "string \<Rightarrow> string \<Rightarrow> bool" where
  "contains [] sub = (sub = [])"
| "contains (c # cs) sub = (startswith (c # cs) sub \<or> contains cs sub)"

text \<open>
  \<^verbatim>\<open>s.replace(old, new)\<close>: every occurrence of \<open>old\<close>, found left to right without
  overlap, becomes \<open>new\<close>. With an empty \<open>old\<close> Python puts \<open>new\<close> before every character
  and at the end.
\<close>

fun replace_from :: "string \<Rightarrow> string \<Rightarrow> string \<Rightarrow> string" where
  "replace_from [] old new = []"
| "replace_from (c # cs) old new =
     (if old \<noteq> [] \<and> startswith (c # cs) old
      then new @ replace_from (drop (length old) (c # cs)) old new
      else c # replace_from cs old new)"

definition replace :: "string \<Rightarrow> string \<Rightarrow> string \<Rightarrow> string" where
  "replace s old new =
     (if old = [] then new @ concat (map (\<lambda>c. c # new) s) else replace_from s old new)"

section \<open>convert\_yolo.py: the detection-model exporter\<close>

text \<open>
  The environment: whether \<^verbatim>\<open>from ultralytics import YOLO\<close> raises; what
  \<^verbatim>\<open>YOLO(model_name)\<close> returns or raises (it may download the checkpoint into the file
  system); what \<^verbatim>\<open>model.export(format='onnx', imgsz=640, opset=11)\<close> does to the file
  system and whether it raises; and the text of \<^verbatim>\<open>f"{size / (1024 * 1024):.2f}"\<close> for
  a size in bytes (floating point, left to the environment).
\<close>

record 'm yolo_env =
  ultralytics_import :: "exn option"
  yolo_load :: "string \<Rightarrow> (string \<rightharpoonup> string) \<Rightarrow> (exn + 'm) \<times> (string \<rightharpoonup> string)"
  yolo_export :: "'m \<Rightarrow> (string \<rightharpoonup> string) \<Rightarrow> exn option \<times> (string \<rightharpoonup> string)"
  format_mb :: "nat \<Rightarrow> string"

definition YOLO :: "'m yolo_env \<Rightarrow> string \<Rightarrow> 'm prog" where
  "YOLO E model_name w =
     (case yolo_load E model_name (files w) of
        (r, fs) \<Rightarrow> (r, w\<lparr>files := fs, calls := calls w @ [YOLO_call model_name]\<rparr>))"

definition export_onnx :: "'m yolo_env \<Rightarrow> 'm \<Rightarrow> unit prog" where
  "export_onnx E model w =
     (case yolo_export E model (files w) of
        (r, fs) \<Rightarrow>
          ((case r of None \<Rightarrow> Inr () | Some e \<Rightarrow> Inl e),
           w\<lparr>files := fs, calls := calls w @ [Export_call ''onnx'' 640 11]\<rparr>))"

text \<open>Lines 33-34: the output filename when \<^verbatim>\<open>output_name\<close> is \<^verbatim>\<open>None\<close>.\<close>

definition resolve_output_name :: "string \<Rightarrow> string option \<Rightarrow> string" where
  "resolve_output_name model_name output_name =
     (case output_name of
        None \<Rightarrow> replace model_name ''.pt'' ''.onnx''
      | Some n \<Rightarrow> n)"

definition success_line :: "string \<Rightarrow> string" where
  "success_line output_name = nl @ check_mark @ '' Success! ONNX model created: '' @ output_name"

definition convert_model :: "'m yolo_env \<Rightarrow> string \<Rightarrow> string option \<Rightarrow> bool prog" where
  "convert_model E model_name output_name =
     seq (print_all
       [''Loading YOLOv8 model: '' @ model_name,
        ''Note: This will download the model if it'' @ quote @ ''s not already cached.'']) (\<lambda>_.
     catch
       (seq (YOLO E model_name) (\<lambda>model.
        let output_name = resolve_output_name model_name output_name in
        seq (print_all
          [nl @ ''Converting to ONNX format...'',
           ''Output file: '' @ output_name]) (\<lambda>_.
        seq (export_onnx E model) (\<lambda>_.
        seq (path_exists output_name) (\<lambda>created.
        if created then
          seq (getsize output_name) (\<lambda>file_size.
          seq (print_all
            [success_line output_name,
             ''  File size: '' @ format_mb E file_size @ '' MB'',
             nl @ ''Next steps:'',
             ''  1. Copy '' @ quote @ output_name @ quote @ '' to your qt-brbooth/models/ directory'',
             ''  2. Ensure it'' @ quote @ ''s named '' @ quote @ ''yolov8n-seg.onnx'' @ quote
               @ '' (or update the path in code)'']) (\<lambda>_.
          ret True))
        else
          seq (print (nl @ cross_mark @ '' Error: Output file '' @ output_name
                 @ '' was not created'')) (\<lambda>_.
          ret False))))))
       (\<lambda>e.
          if is_ImportError e then
            seq (print_all
              [nl @ cross_mark @ '' Error: ultralytics package not found!'',
               ''Please install it with: pip install ultralytics'']) (\<lambda>_.
            ret False)
          else
            seq (print (nl @ cross_mark @ '' Error during conversion: '' @ exn_str e)) (\<lambda>_.
            ret False)))"

text \<open>Lines 83-84: the suffix is appended when the name does not end with it.\<close>

definition add_pt_suffix :: "string \<Rightarrow> string" where
  "add_pt_suffix model_name =
     (if \<not> endswith model_name ''.pt'' then model_name @ ''.pt'' else model_name)"

text \<open>Lines 78-84: the model name, from \<^verbatim>\<open>sys.argv\<close> (whose first entry is the script).\<close>

definition cli_model_name :: "string list \<Rightarrow> string" where
  "cli_model_name argv =
     (if length argv > 1 then add_pt_suffix (argv ! 1) else ''yolov8n-seg.pt'')"

definition banner :: "string list" where
  "banner =
     [replicate 60 CHR ''='',
      ''YOLOv8-seg Model Converter'',
      replicate 60 CHR ''='',
      nl @ ''Available models:'',
      ''  - yolov8n-seg.pt  (nano - smallest, fastest)'',
      ''  - yolov8s-seg.pt  (small - balanced)'',
      ''  - yolov8m-seg.pt  (medium - better accuracy)'',
      ''  - yolov8l-seg.pt  (large - high accuracy)'',
      ''  - yolov8x-seg.pt  (extra large - highest accuracy)'',
      nl @ replicate 60 CHR ''='']"

text \<open>
  The script: the import of line 13 runs first and is outside every \<^verbatim>\<open>try\<close>, so an
  exception it raises reaches the top level.
\<close>

definition convert_yolo_script :: "'m yolo_env \<Rightarrow> string list \<Rightarrow> world \<Rightarrow> outcome \<times> world" where
  "convert_yolo_script E argv w =
     (case ultralytics_import E of
        Some e \<Rightarrow> (Uncaught e, w)
      | None \<Rightarrow>
          sys_exit
            (seq (print_all banner) (\<lambda>_.
             let model_name = cli_model_name argv in
             seq (print_all
               [nl @ ''Converting: '' @ model_name,
                ''(This may take a few minutes on first run as it downloads the model)'' @ nl]) (\<lambda>_.
             convert_model E model_name None))) w)"

section \<open>download\_tflite\_model.py: the mobile-segmentation converter\<close>

text \<open>
  What the interpreter calls of \<^verbatim>\<open>test_model\<close> do: raise before the two detail lines are
  printed; raise after them (carrying the two texts printed); or run through, with the texts
  of the input details, the output details and the output shape.
\<close>

datatype test_result =
    Test_raised_early exn
  | Test_raised_late string string exn
  | Test_passed string string string

text \<open>
  The environment: whether \<^verbatim>\<open>import numpy\<close> (line 8), \<^verbatim>\<open>import tensorflow\<close> and
  \<^verbatim>\<open>import tensorflow_hub\<close> raise; the two version strings; what \<^verbatim>\<open>hub.load(url)\<close>
  returns (the keys of the loaded object's signatures) or raises; whether the
  \<^verbatim>\<open>tf.keras\<close> calls that build a network of the given layers raise; whether the two
  converter constructors raise; what \<^verbatim>\<open>converter.convert()\<close> returns or raises for a
  model; how writing a file goes; and what the interpreter does with a model file.
\<close>

record tf_env =
  numpy_import :: "exn option"
  tensorflow_import :: "exn option"
  tf_version :: string
  hub_import :: "exn option"
  hub_version :: string
  hub_load :: "string \<Rightarrow> exn + string list"
  keras_raises :: "layer list \<Rightarrow> exn option"
  from_concrete_functions :: "string \<Rightarrow> exn option"
  from_keras_model :: "tf_model \<Rightarrow> exn option"
  converter_convert :: "tf_model \<Rightarrow> exn + string"
  tf_write :: "string \<Rightarrow> string \<Rightarrow> wresult"
  interpreter :: "string \<Rightarrow> (string \<rightharpoonup> string) \<Rightarrow> test_result"

text \<open>
  The body shared by the two hand-built networks: \<^verbatim>\<open>import tensorflow as tf\<close>, then the
  \<^verbatim>\<open>tf.keras.Input\<close>, layer and \<^verbatim>\<open>tf.keras.Model\<close> calls, one entry of the trace.
\<close>

definition create_model :: "tf_env \<Rightarrow> layer list \<Rightarrow> tf_model prog" where
  "create_model E layers =
     seq (import_module (tensorflow_import E)) (\<lambda>_.
     seq (raises (Keras_Model_call layers) (keras_raises E layers)) (\<lambda>_.
     ret (Keras_model layers)))"

text \<open>Lines 77-86: two convolutions and a 2-class output layer.\<close>

definition minimal_layers :: "layer list" where
  "minimal_layers =
     [Conv2D 32 3 ''relu'' (Some ''same''),
      Conv2D 32 3 ''relu'' (Some ''same''),
      Conv2D 2 1 ''softmax'' None]"

definition create_minimal_model :: "tf_env \<Rightarrow> tf_model option prog" where
  "create_minimal_model E =
     seq (print ''Creating minimal segmentation model...'') (\<lambda>_.
     catch
       (seq (create_model E minimal_layers) (\<lambda>model.
        seq (print ''Minimal segmentation model created successfully!'') (\<lambda>_.
        ret (Some model))))
       (\<lambda>e.
          seq (print (''Error creating minimal model: '' @ exn_str e)) (\<lambda>_.
          ret None)))"

text \<open>Lines 36-57: the encoder, the decoder and a 21-class output layer.\<close>

definition simple_layers :: "layer list" where
  "simple_layers =
     [Conv2D 64 3 ''relu'' (Some ''same''),
      Conv2D 64 3 ''relu'' (Some ''same''),
      MaxPooling2D 2,
      Conv2D 128 3 ''relu'' (Some ''same''),
      Conv2D 128 3 ''relu'' (Some ''same''),
      MaxPooling2D 2,
      Conv2DTranspose 64 3 2 ''relu'' (Some ''same''),
      Conv2D 64 3 ''relu'' (Some ''same''),
      Conv2DTranspose 32 3 2 ''relu'' (Some ''same''),
      Conv2D 32 3 ''relu'' (Some ''same''),
      Conv2D 21 1 ''softmax'' None]"

definition create_simple_segmentation_model :: "tf_env \<Rightarrow> tf_model option prog" where
  "create_simple_segmentation_model E =
     seq (print ''Creating simple segmentation model as fallback...'') (\<lambda>_.
     catch
       (seq (create_model E simple_layers) (\<lambda>model.
        seq (print ''Simple segmentation model created successfully!'') (\<lambda>_.
        ret (Some model))))
       (\<lambda>e.
          seq (print_all
            [''Error creating fallback model: '' @ exn_str e,
             ''Trying even simpler approach...'']) (\<lambda>_.
          create_minimal_model E)))"

definition hub_url :: string where
  "hub_url = ''https://tfhub.dev/tensorflow/deeplabv3/1''"

definition download_deeplabv3_model :: "tf_env \<Rightarrow> tf_model option prog" where
  "download_deeplabv3_model E =
     seq (print ''Downloading DeepLabv3 model from TensorFlow Hub...'') (\<lambda>_.
     catch
       (seq (import_module (tensorflow_import E)) (\<lambda>_.
        seq (import_module (hub_import E)) (\<lambda>_.
        seq (extern (Hub_load_call hub_url) (hub_load E hub_url)) (\<lambda>signatures.
        seq (print ''Model downloaded successfully!'') (\<lambda>_.
        ret (Some (Hub_model signatures)))))))
       (\<lambda>e.
          seq (print_all
            [''Error downloading model: '' @ exn_str e,
             ''Trying alternative approach with direct model creation...'']) (\<lambda>_.
          create_simple_segmentation_model E)))"

text \<open>
  Lines 102-108: a model with a \<^verbatim>\<open>signatures\<close> attribute (the object \<^verbatim>\<open>hub.load\<close>
  returned) is converted from its \<^verbatim>\<open>serving_default\<close> signature, whose lookup raises
  \<^verbatim>\<open>KeyError\<close> when the key is missing; a Keras model goes to \<^verbatim>\<open>from_keras_model\<close>.
\<close>

definition make_converter :: "tf_env \<Rightarrow> tf_model \<Rightarrow> unit prog" where
  "make_converter E model =
     (case model of
        Hub_model signatures \<Rightarrow>
          if ''serving_default'' \<in> set signatures
          then raises (From_concrete_functions_call ''serving_default'')
                 (from_concrete_functions E ''serving_default'')
          else throw (KeyError (quote @ ''serving_default'' @ quote))
      | Keras_model layers \<Rightarrow>
          raises (From_keras_model_call model) (from_keras_model E model))"

text \<open>
  Lines 94-126. The two option assignments of lines 111-112 set attributes of the converter
  and call nothing; \<^verbatim>\<open>convert()\<close> is line 115, the \<^verbatim>\<open>open\<close> is line 118.
\<close>

definition convert_to_tflite :: "tf_env \<Rightarrow> tf_model \<Rightarrow> string \<Rightarrow> bool prog" where
  "convert_to_tflite E model output_path =
     seq (print ''Converting model to TensorFlow Lite format...'') (\<lambda>_.
     catch
       (seq (import_module (tensorflow_import E)) (\<lambda>_.
        seq (make_converter E model) (\<lambda>_.
        seq (extern Convert_call (converter_convert E model)) (\<lambda>tflite_model.
        seq (write_file (tf_write E) output_path tflite_model) (\<lambda>_.
        seq (print (''Model saved to: '' @ output_path)) (\<lambda>_.
        ret True))))))
       (\<lambda>e.
          seq (print (''Error converting model: '' @ exn_str e)) (\<lambda>_.
          ret False)))"

definition run_interpreter :: "tf_env \<Rightarrow> string \<Rightarrow> bool prog" where
  "run_interpreter E model_path w =
     (let w1 = w\<lparr>calls := calls w @ [Interpreter_call model_path]\<rparr> in
      case interpreter E model_path (files w) of
        Test_raised_early e \<Rightarrow> (Inl e, w1)
      | Test_raised_late input_details output_details e \<Rightarrow>
          (Inl e, w1\<lparr>stdout := stdout w @
             [''Input details: '' @ input_details,
              ''Output details: '' @ output_details]\<rparr>)
      | Test_passed input_details output_details shape \<Rightarrow>
          (Inr True, w1\<lparr>stdout := stdout w @
             [''Input details: '' @ input_details,
              ''Output details: '' @ output_details,
              ''Output shape: '' @ shape,
              ''Model test successful!'']\<rparr>))"

definition test_model :: "tf_env \<Rightarrow> string \<Rightarrow> bool prog" where
  "test_model E model_path =
     seq (print ''Testing converted model...'') (\<lambda>_.
     catch
       (seq (import_module (tensorflow_import E)) (\<lambda>_.
        run_interpreter E model_path))
       (\<lambda>e.
          seq (print (''Error testing model: '' @ exn_str e)) (\<lambda>_.
          ret False)))"

text \<open>
  Lines 172-189: the check that TensorFlow is installed. It yields \<open>False\<close> where the source
  returns \<open>False\<close> from \<^verbatim>\<open>main\<close>; an exception that is not an \<^verbatim>\<open>ImportError\<close> is not
  caught.
\<close>

definition check_tensorflow :: "tf_env \<Rightarrow> bool prog" where
  "check_tensorflow E =
     catch
       (seq (import_module (tensorflow_import E)) (\<lambda>_.
        seq (print (''TensorFlow version: '' @ tf_version E)) (\<lambda>_.
        seq (catch
               (seq (import_module (hub_import E)) (\<lambda>_.
                print (''TensorFlow Hub version: '' @ hub_version E)))
               (\<lambda>hub_error.
                  print_all
                    [''Warning: TensorFlow Hub import failed: '' @ exn_str hub_error,
                     ''Will use fallback model creation approach...''])) (\<lambda>_.
        ret True))))
       (\<lambda>e.
          if is_ImportError e then
            seq (print_all
              [''Error: '' @ exn_str e,
               ''Please install required packages:'',
               ''pip install tensorflow tensorflow-hub'']) (\<lambda>_.
            ret False)
          else throw e)"

definition main_tflite :: "tf_env \<Rightarrow> bool prog" where
  "main_tflite E =
     seq (print_all
       [''TensorFlow Lite DeepLabv3 Model Converter'',
        replicate 40 CHR ''='']) (\<lambda>_.
     seq (check_tensorflow E) (\<lambda>installed.
     if \<not> installed then ret False
     else
       seq (download_deeplabv3_model E) (\<lambda>model.
       case model of
         None \<Rightarrow> ret False
       | Some model \<Rightarrow>
           let output_path = ''deeplabv3.tflite'' in
           seq (convert_to_tflite E model output_path) (\<lambda>converted.
           if \<not> converted then ret False
           else
             seq (test_model E output_path) (\<lambda>tested.
             if \<not> tested then ret False
             else
               seq (print_all
                 [nl @ replicate 40 CHR ''='',
                  ''SUCCESS! Model conversion completed.'',
                  ''Model file: '' @ output_path,
                  nl @ ''Next steps:'',
                  ''1. Copy the .tflite file to your Qt project directory'',
                  ''2. Use the '' @ quote @ ''Load Model'' @ quote
                    @ '' button in the TFLite Segmentation tab'',
                  ''3. Select your camera and start segmentation'']) (\<lambda>_.
               ret True))))))"

text \<open>The script never reads \<^verbatim>\<open>sys.argv\<close>.\<close>

definition download_tflite_script :: "tf_env \<Rightarrow> string list \<Rightarrow> world \<Rightarrow> outcome \<times> world" where
  "download_tflite_script E argv w =
     (case numpy_import E of
        Some e \<Rightarrow> (Uncaught e, w)
      | None \<Rightarrow> sys_exit (main_tflite E) w)"

section \<open>tools/build\_trt\_engine.py: the engine builder\<close>

text \<open>
  The environment: whether \<^verbatim>\<open>import tensorrt\<close> raises; the integer value of
  \<^verbatim>\<open>trt.NetworkDefinitionCreationFlag.EXPLICIT_BATCH\<close>; whether a call of the builder,
  parser or configuration API raises; what \<^verbatim>\<open>parser.parse(bytes)\<close> returns, with the
  texts of the parser's errors; what \<^verbatim>\<open>builder.build_serialized_network\<close> returns for
  the parsed bytes (\<open>None\<close> or the engine); and how writing a file goes.
\<close>

record trt_env =
  tensorrt_import :: "exn option"
  EXPLICIT_BATCH :: nat
  trt_raises :: "call \<Rightarrow> exn option"
  parser_parse :: "string \<Rightarrow> exn + bool \<times> string list"
  build_serialized_network :: "string \<Rightarrow> exn + string option"
  trt_write :: "string \<Rightarrow> string \<Rightarrow> wresult"

definition trt_call :: "trt_env \<Rightarrow> call \<Rightarrow> unit prog" where
  "trt_call E c = raises c (trt_raises E c)"

text \<open>
  Lines 7-40. Nothing here is inside a \<^verbatim>\<open>try\<close>: an exception of any call leaves the
  function. \<open>1 << n\<close> is \<open>2 ^ n\<close> and \<open>4 << 30\<close> is \<open>4 * 2 ^ 30\<close>.
\<close>

definition build_engine :: "trt_env \<Rightarrow> string \<Rightarrow> string \<Rightarrow> bool prog" where
  "build_engine E onnx_path engine_path =
     seq (trt_call E Logger_call) (\<lambda>_.
     seq (trt_call E Builder_call) (\<lambda>_.
     seq (trt_call E (Create_network_call (2 ^ EXPLICIT_BATCH E))) (\<lambda>_.
     seq (trt_call E OnnxParser_call) (\<lambda>_.
     seq (print (''Loading ONNX file: '' @ onnx_path)) (\<lambda>_.
     seq (read_file onnx_path) (\<lambda>onnx.
     seq (extern (Parse_call onnx) (parser_parse E onnx)) (\<lambda>(parsed, errors).
     if \<not> parsed then
       seq (print_all errors) (\<lambda>_.
       ret False)
     else
       seq (trt_call E Create_builder_config_call) (\<lambda>_.
       seq (trt_call E (Set_memory_pool_limit_call (4 * 2 ^ 30))) (\<lambda>_.
       seq (trt_call E Set_flag_FP16_call) (\<lambda>_.
       seq (print ''Building TensorRT engine (this may take a few minutes)...'') (\<lambda>_.
       seq (extern Build_serialized_network_call (build_serialized_network E onnx))
         (\<lambda>serialized_engine.
       case serialized_engine of
         None \<Rightarrow>
           seq (print ''Failed to build engine'') (\<lambda>_.
           ret False)
       | Some engine \<Rightarrow>
           seq (write_file (trt_write E) engine_path engine) (\<lambda>_.
           seq (print (''Engine saved to: '' @ engine_path)) (\<lambda>_.
           ret True))))))))))))))"

text \<open>Lines 42-51. The script never reads \<^verbatim>\<open>sys.argv\<close>.\<close>

definition build_trt_engine_script :: "trt_env \<Rightarrow> string list \<Rightarrow> world \<Rightarrow> outcome \<times> world" where
  "build_trt_engine_script E argv w =
     (case tensorrt_import E of
        Some e \<Rightarrow> (Uncaught e, w)
      | None \<Rightarrow>
          let onnx_file = ''models/yolov8n.onnx'';
              engine_file = ''models/yolov8n_fp16.engine''
          in
            if files w onnx_file = None
            then (Exit 1, w\<lparr>stdout := stdout w @ [''Error: '' @ onnx_file @ '' not found!'']\<rparr>)
            else sys_exit (build_engine E onnx_file engine_file) w)"

section \<open>tools/export\_mediapipe\_hands.py: the landmark-model exporter\<close>

text \<open>
  The script works on \<^verbatim>\<open>pathlib\<close> paths and leaves every change of the file system to
  \<^verbatim>\<open>mkdir\<close> and to the converter, so paths (\<open>'p\<close>) and the file system (\<open>'fs\<close>) stay
  abstract, with their operations in the environment: the two imports; \<^verbatim>\<open>PACKAGE_DIR\<close>;
  \<^verbatim>\<open>/\<close>, \<^verbatim>\<open>.parent\<close>, \<^verbatim>\<open>str\<close> and \<^verbatim>\<open>Path(...)\<close>; \<^verbatim>\<open>.exists()\<close>;
  \<^verbatim>\<open>.mkdir(parents=True, exist_ok=True)\<close>; and \<^verbatim>\<open>tflite2onnx.convert\<close>. The last field
  is what \<^verbatim>\<open>parse_args\<close> does with a command line outside the part of \<^verbatim>\<open>argparse\<close>
  written out below.
\<close>

datatype 'p parsed = Namespace 'p string | Parser_exit int

record ('p, 'fs) mp_env =
  mediapipe_import :: "exn option"
  tflite2onnx_import :: "exn option"
  package_dir :: 'p
  joinpath :: "'p \<Rightarrow> string \<Rightarrow> 'p"
  parent_of :: "'p \<Rightarrow> 'p"
  str_of :: "'p \<Rightarrow> string"
  to_path :: "string \<Rightarrow> 'p"
  fs_exists :: "'fs \<Rightarrow> 'p \<Rightarrow> bool"
  fs_mkdir :: "'p \<Rightarrow> 'fs \<Rightarrow> exn option \<times> 'fs"
  tflite2onnx_convert :: "string \<Rightarrow> string \<Rightarrow> 'fs \<Rightarrow> exn option \<times> 'fs"
  argparse_other :: "string list \<Rightarrow> 'p parsed"

datatype 'p mp_call = Mkdir_call 'p | Tflite2onnx_call string string

record ('p, 'fs) mp_world =
  fs :: 'fs
  mp_calls :: "'p mp_call list"

definition MODEL_DIR :: "('p, 'fs) mp_env \<Rightarrow> 'p" where
  "MODEL_DIR E = joinpath E (joinpath E (package_dir E) ''modules'') ''hand_landmark''"

text \<open>The dictionary of lines 15-18, in insertion order.\<close>

definition MODEL_FILES :: "(string \<times> string) list" where
  "MODEL_FILES =
     [(''lite'', ''hand_landmark_lite.tflite''),
      (''full'', ''hand_landmark_full.tflite'')]"

text \<open>\<^verbatim>\<open>sep.join(xs)\<close>.\<close>

fun join :: "string \<Rightarrow> string list \<Rightarrow> string" where
  "join sep [] = []"
| "join sep [x] = x"
| "join sep (x # y # ys) = x @ sep @ join sep (y # ys)"

definition mkdir_parents :: "('p, 'fs) mp_env \<Rightarrow> 'p \<Rightarrow> (unit, ('p, 'fs) mp_world) stmt" where
  "mkdir_parents E p w =
     (case fs_mkdir E p (fs w) of
        (r, fs') \<Rightarrow>
          ((case r of None \<Rightarrow> Inr () | Some e \<Rightarrow> Inl e),
           w\<lparr>fs := fs', mp_calls := mp_calls w @ [Mkdir_call p]\<rparr>))"

definition convert :: "('p, 'fs) mp_env \<Rightarrow> string \<Rightarrow> string \<Rightarrow> (unit, ('p, 'fs) mp_world) stmt" where
  "convert E tflite_path output_path w =
     (case tflite2onnx_convert E tflite_path output_path (fs w) of
        (r, fs') \<Rightarrow>
          ((case r of None \<Rightarrow> Inr () | Some e \<Rightarrow> Inl e),
           w\<lparr>fs := fs', mp_calls := mp_calls w @ [Tflite2onnx_call tflite_path output_path]\<rparr>))"

definition export_hand_landmark ::
  "('p, 'fs) mp_env \<Rightarrow> 'p \<Rightarrow> string \<Rightarrow> (unit, ('p, 'fs) mp_world) stmt" where
  "export_hand_landmark E output_path model_type =
     seq (case map_of MODEL_FILES model_type of
            None \<Rightarrow>
              throw (ValueError (''model_type must be one of: '' @ join '', '' (map fst MODEL_FILES)))
          | Some model_name \<Rightarrow> ret model_name) (\<lambda>model_name.
     let tflite_path = joinpath E (MODEL_DIR E) model_name in
     (\<lambda>w.
        if \<not> fs_exists E (fs w) tflite_path
        then throw (FileNotFoundError (''Could not locate '' @ str_of E tflite_path)) w
        else
          seq (mkdir_parents E (parent_of E output_path)) (\<lambda>_.
          convert E (str_of E tflite_path) (str_of E output_path)) w))"

text \<open>
  \<^verbatim>\<open>parser.parse_args()\<close> for the parser of lines 36-38: \<^verbatim>\<open>--output\<close>, required, converted
  with \<^verbatim>\<open>Path\<close>, and \<^verbatim>\<open>--model\<close>, one of the keys of \<^verbatim>\<open>MODEL_FILES\<close>, default
  \<^verbatim>\<open>"full"\<close>. Written out for the command lines whose every argument is one of the two
  option strings or does not begin with a dash. \<^verbatim>\<open>argparse\<close> reads them left to right: an
  option takes the next argument as its value, and it is an error (exit status 2, at once)
  when there is none, when the next argument is an option string, or when the value of
  \<^verbatim>\<open>--model\<close> is not among the choices; any other argument is kept aside; at the end a
  missing \<^verbatim>\<open>--output\<close> or an argument kept aside is an error (exit status 2). Every other
  command line (abbreviated options, \<^verbatim>\<open>--output=x\<close>, \<^verbatim>\<open>-h\<close>, ...) is left to the
  environment.
\<close>

definition option_strings :: "string list" where
  "option_strings = [''--output'', ''--model'']"

fun consume :: "(string \<Rightarrow> 'p) \<Rightarrow> string list \<Rightarrow> 'p option \<Rightarrow> string \<Rightarrow> bool \<Rightarrow> 'p parsed" where
  "consume conv [] output model extras =
     (case output of
        None \<Rightarrow> Parser_exit 2
      | Some p \<Rightarrow> if extras then Parser_exit 2 else Namespace p model)"
| "consume conv [a] output model extras =
     (if a \<in> set option_strings then Parser_exit 2
      else consume conv [] output model True)"
| "consume conv (a # v # rest) output model extras =
     (if a = ''--output'' then
        (if v \<in> set option_strings then Parser_exit 2
         else consume conv rest (Some (conv v)) model extras)
      else if a = ''--model'' then
        (if v \<in> set option_strings then Parser_exit 2
         else if v \<in> set (map fst MODEL_FILES) then consume conv rest output v extras
         else Parser_exit 2)
      else consume conv (v # rest) output model True)"

definition parse_args :: "('p, 'fs) mp_env \<Rightarrow> string list \<Rightarrow> 'p parsed" where
  "parse_args E args =
     (if list_all (\<lambda>a. a \<in> set option_strings \<or> \<not> startswith a ''-'') args
      then consume (to_path E) args None ''full'' False
      else argparse_other E args)"

text \<open>
  Lines 35-45: \<^verbatim>\<open>main\<close> parses \<^verbatim>\<open>sys.argv[1:]\<close> and exports; nothing catches what the
  export raises, and the script ends with status 0 when \<^verbatim>\<open>main\<close> returns.
\<close>

definition main_mediapipe ::
  "('p, 'fs) mp_env \<Rightarrow> string list \<Rightarrow> ('p, 'fs) mp_world \<Rightarrow> outcome \<times> ('p, 'fs) mp_world" where
  "main_mediapipe E argv w =
     (case parse_args E (tl argv) of
        Parser_exit n \<Rightarrow> (Exit n, w)
      | Namespace output model \<Rightarrow>
          (case export_hand_landmark E output model w of
             (Inl e, w') \<Rightarrow> (Uncaught e, w')
           | (Inr u, w') \<Rightarrow> (Exit 0, w')))"

definition export_mediapipe_hands_script ::
  "('p, 'fs) mp_env \<Rightarrow> string list \<Rightarrow> ('p, 'fs) mp_world \<Rightarrow> outcome \<times> ('p, 'fs) mp_world" where
  "export_mediapipe_hands_script E argv w =
     (case mediapipe_import E of
        Some e \<Rightarrow> (Uncaught e, w)
      | None \<Rightarrow>
          (case tflite2onnx_import E of
             Some e \<Rightarrow> (Uncaught e, w)
           | None \<Rightarrow> main_mediapipe E argv w))"

section \<open>The fallback chain as an ordered list\<close>

text \<open>
  The three attempts of \<^verbatim>\<open>download_tflite_model.py\<close> as values: what the body of each
  \<^verbatim>\<open>try\<close> block yields in an environment, an exception or a model.
\<close>

definition hub_attempt :: "tf_env \<Rightarrow> exn + tf_model" where
  "hub_attempt E =
     (case tensorflow_import E of
        Some e \<Rightarrow> Inl e
      | None \<Rightarrow>
          (case hub_import E of
             Some e \<Rightarrow> Inl e
           | None \<Rightarrow>
               (case hub_load E hub_url of
                  Inl e \<Rightarrow> Inl e
                | Inr signatures \<Rightarrow> Inr (Hub_model signatures))))"

definition keras_attempt :: "tf_env \<Rightarrow> layer list \<Rightarrow> exn + tf_model" where
  "keras_attempt E layers =
     (case tensorflow_import E of
        Some e \<Rightarrow> Inl e
      | None \<Rightarrow>
          (case keras_raises E layers of
             Some e \<Rightarrow> Inl e
           | None \<Rightarrow> Inr (Keras_model layers)))"

text \<open>
  The specification's reading of the chain: an ordered list of attempts tried in sequence,
  the first that raises no exception accepted; \<open>None\<close> when every attempt raises.
\<close>

fun first_success :: "(exn + 'a) list \<Rightarrow> 'a option" where
  "first_success [] = None"
| "first_success (Inr x # attempts) = Some x"
| "first_success (Inl e # attempts) = first_success attempts"

section \<open>Example runs\<close>

text \<open>Concrete environments and worlds, on which the theorems below are evaluated.\<close>

definition empty_world :: world where
  "empty_world = \<lparr>files = Map.empty, stdout = [], calls = []\<rparr>"

text \<open>
  ultralytics is installed; loading caches the checkpoint under its name and the export
  writes \<^verbatim>\<open>yolov8n-seg.onnx\<close>.
\<close>

definition yolo_env_ok :: "nat yolo_env" where
  "yolo_env_ok =
     \<lparr>ultralytics_import = None,
      yolo_load = (\<lambda>name fs. (Inr 0, fs(name \<mapsto> ''weights''))),
      yolo_export = (\<lambda>m fs. (None, fs(''yolov8n-seg.onnx'' \<mapsto> ''graph''))),
      format_mb = (\<lambda>n. ''0.00'')\<rparr>"

text \<open>
  TensorFlow is installed, the registry download raises, building the encoder/decoder
  network raises, and every other call goes through.
\<close>

definition tf_env_fallback :: tf_env where
  "tf_env_fallback =
     \<lparr>numpy_import = None,
      tensorflow_import = None,
      tf_version = ''2.15.0'',
      hub_import = None,
      hub_version = ''0.16.1'',
      hub_load = (\<lambda>url. Inl (OtherException ''no network'')),
      keras_raises = (\<lambda>layers. if layers = simple_layers then Some (OtherException ''out of memory'') else None),
      from_concrete_functions = (\<lambda>key. None),
      from_keras_model = (\<lambda>model. None),
      converter_convert = (\<lambda>model. Inr ''tflite bytes''),
      tf_write = (\<lambda>p data. Written),
      interpreter = (\<lambda>p fs. Test_passed ''[in]'' ''[out]'' ''(1, 1, 1, 2)'')\<rparr>"

text \<open>TensorRT is installed and every call of its API goes through.\<close>

definition trt_env_ok :: trt_env where
  "trt_env_ok =
     \<lparr>tensorrt_import = None,
      EXPLICIT_BATCH = 0,
      trt_raises = (\<lambda>c. None),
      parser_parse = (\<lambda>onnx. Inr (True, [])),
      build_serialized_network = (\<lambda>onnx. Inr (Some (''engine of '' @ onnx))),
      trt_write = (\<lambda>p data. Written)\<rparr>"

text \<open>As \<open>tf_env_fallback\<close>, but \<^verbatim>\<open>converter.convert()\<close> raises.\<close>

definition tf_env_convert_raises :: tf_env where
  "tf_env_convert_raises =
     tf_env_fallback\<lparr>converter_convert := (\<lambda>model. Inl (OtherException ''unsupported op''))\<rparr>"

text \<open>A world where the output of an earlier conversion is on disk.\<close>

definition world_with_old_output :: world where
  "world_with_old_output =
     \<lparr>files = [''deeplabv3.tflite'' \<mapsto> ''old model''], stdout = [], calls = []\<rparr>"

text \<open>A world where the input of the engine builder is on disk.\<close>

definition world_with_onnx :: world where
  "world_with_onnx =
     \<lparr>files = [''models/yolov8n.onnx'' \<mapsto> ''onnx graph''], stdout = [], calls = []\<rparr>"

text \<open>As \<open>trt_env_ok\<close>, but the builder returns \<^verbatim>\<open>None\<close> for the serialized engine.\<close>

definition trt_env_no_engine :: trt_env where
  "trt_env_no_engine = trt_env_ok\<lparr>build_serialized_network := (\<lambda>onnx. Inr None)\<rparr>"

text \<open>As \<open>yolo_env_ok\<close>, but the export returns without writing the output file.\<close>

definition yolo_env_no_output :: "nat yolo_env" where
  "yolo_env_no_output = yolo_env_ok\<lparr>yolo_export := (\<lambda>m fs. (None, fs))\<rparr>"

text \<open>
  mediapipe and tflite2onnx are installed; paths are strings joined with a slash, the file
  system is the list of the paths that exist, \<^verbatim>\<open>mkdir\<close> and the converter add the path
  they create.
\<close>

definition mp_env_ok :: "(string, string list) mp_env" where
  "mp_env_ok =
     \<lparr>mediapipe_import = None,
      tflite2onnx_import = None,
      package_dir = ''/site-packages/mediapipe'',
      joinpath = (\<lambda>p name. p @ ''/'' @ name),
      parent_of = (\<lambda>p. rev (tl (dropWhile (\<lambda>c. c \<noteq> CHR ''/'') (rev p)))),
      str_of = (\<lambda>p. p),
      to_path = (\<lambda>s. s),
      fs_exists = (\<lambda>fs p. p \<in> set fs),
      fs_mkdir = (\<lambda>p fs. (None, p # fs)),
      tflite2onnx_convert = (\<lambda>src dst fs. (None, dst # fs)),
      argparse_other = (\<lambda>args. Parser_exit 2)\<rparr>"

text \<open>The two bundled models are in the package directory; or nothing is.\<close>

definition mp_world_installed :: "(string, string list) mp_world" where
  "mp_world_installed =
     \<lparr>fs = [''/site-packages/mediapipe/modules/hand_landmark/hand_landmark_lite.tflite'',
            ''/site-packages/mediapipe/modules/hand_landmark/hand_landmark_full.tflite''],
      mp_calls = []\<rparr>"

definition mp_world_bare :: "(string, string list) mp_world" where
  "mp_world_bare = \<lparr>fs = [], mp_calls = []\<rparr>"

text \<open>The environments where the script's package is not installed.\<close>

definition trt_env_missing :: trt_env where
  "trt_env_missing =
     trt_env_ok\<lparr>tensorrt_import :=
       Some (ImportError (''No module named '' @ quote @ ''tensorrt'' @ quote))\<rparr>"

definition tf_env_missing :: tf_env where
  "tf_env_missing =
     tf_env_fallback\<lparr>tensorflow_import :=
       Some (ImportError (''No module named '' @ quote @ ''tensorflow'' @ quote))\<rparr>"

definition mp_env_missing :: "(string, string list) mp_env" where
  "mp_env_missing =
     mp_env_ok\<lparr>mediapipe_import :=
       Some (ImportError (''No module named '' @ quote @ ''mediapipe'' @ quote))\<rparr>"

definition mp_env_no_converter :: "(string, string list) mp_env" where
  "mp_env_no_converter =
     mp_env_ok\<lparr>tflite2onnx_import :=
       Some (ImportError (''No module named '' @ quote @ ''tflite2onnx'' @ quote))\<rparr>"

section \<open>Properties\<close>

subsection \<open>Strings\<close>

lemma endswith_append_self: "endswith (s @ suf) suf"
  by (simp add: endswith_def)

lemma add_pt_suffix_idem: "add_pt_suffix (add_pt_suffix name) = add_pt_suffix name"
  by (simp add: add_pt_suffix_def endswith_append_self)

lemma replace_from_pt_head2:
  "take 2 (replace_from s ''.pt'' ''.onnx'') = ''pt'' \<Longrightarrow> take 2 s = ''pt''"
  by (cases s; cases "tl s") (auto simp: startswith_def split: if_splits)

lemma startswith_append: "startswith s p \<Longrightarrow> startswith (s @ t) p"
proof -
  assume a: "startswith s p"
  then have "length (take (length p) s) = length p"
    unfolding startswith_def by simp
  then have "length p \<le> length s" by simp
  with a show ?thesis by (simp add: startswith_def)
qed

lemma contains_empty: "contains s []"
  by (cases s) (simp_all add: startswith_def)

lemma no_pt_in_replace:
  "\<not> contains (replace_from s ''.pt'' ''.onnx'') ''.pt''"
proof (induction s "''.pt''" "''.onnx''" rule: replace_from.induct)
  case 1
  show ?case by simp
next
  case (2 c cs)
  show ?case
  proof (cases "startswith (c # cs) ''.pt''")
    case True
    with 2 show ?thesis by (simp add: startswith_def)
  next
    case False
    with 2 have ih: "\<not> contains (replace_from cs ''.pt'' ''.onnx'') ''.pt''" by simp
    have "\<not> startswith (c # replace_from cs ''.pt'' ''.onnx'') ''.pt''"
    proof
      assume a: "startswith (c # replace_from cs ''.pt'' ''.onnx'') ''.pt''"
      then have "c = CHR ''.''" and "take 2 (replace_from cs ''.pt'' ''.onnx'') = ''pt''"
        by (auto simp: startswith_def numeral_2_eq_2)
      then have "take 2 cs = ''pt''" using replace_from_pt_head2 by blast
      with \<open>c = CHR ''.''\<close> False show False by (simp add: startswith_def numeral_2_eq_2)
    qed
    with ih False show ?thesis by simp
  qed
qed

lemma contains_append_right: "contains s sub \<Longrightarrow> contains (s @ t) sub"
proof (induction s)
  case Nil
  then show ?case by (simp add: contains_empty)
next
  case (Cons c cs)
  then show ?case using startswith_append [of "c # cs" sub t] by auto
qed

lemma no_straddle:
  "\<not> contains (c # cs) ''.pt'' \<Longrightarrow> \<not> startswith ((c # cs) @ ''.pt'') ''.pt''"
  apply (cases cs) apply (auto simp: startswith_def)[1]
  by (cases "tl cs") (auto simp: startswith_def)

lemma replace_suffix_only:
  "\<not> contains stem ''.pt'' \<Longrightarrow> replace_from (stem @ ''.pt'') ''.pt'' ''.onnx'' = stem @ ''.onnx''"
proof (induction stem)
  case Nil
  show ?case by (simp add: startswith_def)
next
  case (Cons c cs)
  then have "\<not> startswith ((c # cs) @ ''.pt'') ''.pt''" using no_straddle by blast
  moreover from Cons have "replace_from (cs @ ''.pt'') ''.pt'' ''.onnx'' = cs @ ''.onnx''" by simp
  ultimately show ?case by simp
qed

lemmas stmt_defs = ret_def throw_def seq_def catch_def import_module_def

lemmas world_defs = print_def print_all_def extern_def raises_def path_exists_def getsize_def
  read_file_def write_file_def sys_exit_def

subsection \<open>The detection-model exporter\<close>

text \<open>
  C5. The name normalization of \<^verbatim>\<open>convert_yolo.py\<close> (lines 83-84) is idempotent: applied
  twice it gives what it gives applied once; a name that does not end with \<^verbatim>\<open>.pt\<close> gets
  the suffix once; a name that ends with it is left as it is; and the same holds of the
  model name the script reads from its argument.
\<close>

theorem name_normalization_idempotent:
  "add_pt_suffix (add_pt_suffix name) = add_pt_suffix name
   \<and> (\<not> endswith name ''.pt'' \<longrightarrow> add_pt_suffix name = name @ ''.pt'')
   \<and> (endswith name ''.pt'' \<longrightarrow> add_pt_suffix name = name)
   \<and> cli_model_name [prog, cli_model_name [prog, name]] = cli_model_name [prog, name]"
  by (simp add: add_pt_suffix_def cli_model_name_def endswith_append_self)

theorem name_normalization_idempotent_witness:
  "\<not> endswith ''yolov8s-seg'' ''.pt''
   \<and> add_pt_suffix ''yolov8s-seg'' = ''yolov8s-seg.pt''
   \<and> add_pt_suffix (add_pt_suffix ''yolov8s-seg'') = ''yolov8s-seg.pt''
   \<and> endswith ''yolov8s-seg.pt'' ''.pt''
   \<and> add_pt_suffix ''yolov8s-seg.pt'' = ''yolov8s-seg.pt''"
  using name_normalization_idempotent [of "''yolov8s-seg''" "''convert_yolo.py''"]
    name_normalization_idempotent [of "''yolov8s-seg.pt''" "''convert_yolo.py''"]
  by (simp add: endswith_def)

text \<open>
  C8. With \<^verbatim>\<open>output_name\<close> left as \<^verbatim>\<open>None\<close>, \<^verbatim>\<open>convert_model\<close> resolves the output
  filename by replacing every occurrence of \<^verbatim>\<open>.pt\<close> in the model name with \<^verbatim>\<open>.onnx\<close>, so
  no \<^verbatim>\<open>.pt\<close> is left in it. For a name \<open>stem @ ''.pt''\<close> whose stem holds no \<^verbatim>\<open>.pt\<close> the
  result is the stem plus \<^verbatim>\<open>.onnx\<close>; when the stem holds a \<^verbatim>\<open>.pt\<close> the result differs
  from the stem plus \<^verbatim>\<open>.onnx\<close>, the name a swap of the final extension alone would give.
\<close>

theorem output_name_replaces_every_pt:
  "resolve_output_name model_name None = replace model_name ''.pt'' ''.onnx''
   \<and> \<not> contains (resolve_output_name model_name None) ''.pt''
   \<and> (\<not> contains stem ''.pt'' \<longrightarrow> resolve_output_name (stem @ ''.pt'') None = stem @ ''.onnx'')
   \<and> (contains stem ''.pt'' \<longrightarrow> resolve_output_name (stem @ ''.pt'') None \<noteq> stem @ ''.onnx'')"
proof -
  have r: "resolve_output_name m None = replace_from m ''.pt'' ''.onnx''" for m
    by (simp add: resolve_output_name_def replace_def)
  have "resolve_output_name (stem @ ''.pt'') None \<noteq> stem @ ''.onnx''" if "contains stem ''.pt''"
  proof
    assume "resolve_output_name (stem @ ''.pt'') None = stem @ ''.onnx''"
    then have "\<not> contains (stem @ ''.onnx'') ''.pt''"
      using no_pt_in_replace [of "stem @ ''.pt''"] by (simp add: r)
    with that show False using contains_append_right by blast
  qed
  then show ?thesis
    using no_pt_in_replace [of model_name] replace_suffix_only [of stem]
    by (simp add: r) (simp add: replace_def)
qed

theorem output_name_replaces_every_pt_witness:
  "\<not> contains ''yolov8n-seg'' ''.pt''
   \<and> resolve_output_name ''yolov8n-seg.pt'' None = ''yolov8n-seg.onnx''
   \<and> contains ''my.pt.model'' ''.pt''
   \<and> resolve_output_name ''my.pt.model.pt'' None = ''my.onnx.model.onnx''
   \<and> resolve_output_name ''my.pt.model.pt'' None \<noteq> ''my.pt.model.onnx''"
  using output_name_replaces_every_pt [of "''my.pt.model.pt''" "''yolov8n-seg''"]
    output_name_replaces_every_pt [of "''my.pt.model.pt''" "''my.pt.model''"]
  by (simp add: resolve_output_name_def replace_def startswith_def)

lemma contains_self: "contains s s"
  by (cases s) (simp_all add: startswith_def)

lemma contains_suffix: "contains (p @ s) s"
  by (induction p) (simp_all add: contains_self)

lemma convert_model_True:
  assumes "convert_model E m out w = (Inr True, w')"
  shows "success_line (resolve_output_name m out) \<in> set (stdout w')"
    and "files w' (resolve_output_name m out) \<noteq> None"
  using assms
  by (auto simp: convert_model_def stmt_defs world_defs YOLO_def export_onnx_def Let_def
      split: prod.splits sum.splits if_splits option.splits)

lemma convert_model_returns:
  "\<exists>b w'. convert_model E m out w = (Inr b, w')"
  by (auto simp: convert_model_def stmt_defs world_defs YOLO_def export_onnx_def Let_def
      split: prod.splits sum.splits if_splits option.splits)

lemma convert_model_absent:
  assumes "convert_model E m out w = (r, w')"
    and "files w' (resolve_output_name m out) = None"
  shows "r = Inr False"
  using assms
  by (auto simp: convert_model_def stmt_defs world_defs YOLO_def export_onnx_def Let_def
      split: prod.splits sum.splits if_splits option.splits)

lemma convert_yolo_script_Exit0:
  assumes "convert_yolo_script E argv w = (Exit 0, w')"
  shows "\<exists>w1. convert_model E (cli_model_name argv) None w1 = (Inr True, w')"
  using assms convert_model_returns [of E "cli_model_name argv" None]
  apply (simp add: convert_yolo_script_def sys_exit_def seq_def print_all_def Let_def
      split: option.splits prod.splits sum.splits if_splits)
  by (metis (full_types))

text \<open>
  C4. Run with no argument, the detection-model exporter takes the default model name
  \<^verbatim>\<open>yolov8n-seg.pt\<close> (the variant the banner calls the smallest, resolved to the output
  \<^verbatim>\<open>yolov8n-seg.onnx\<close>); given an argument, it appends \<^verbatim>\<open>.pt\<close> only when the argument
  does not already end with it; and when the script exits with status 0, that is when the
  conversion succeeded, it has printed the success line, which contains the resolved output
  filename.
\<close>

theorem exporter_default_name_and_success_line:
  "cli_model_name [prog] = ''yolov8n-seg.pt''
   \<and> ''  - yolov8n-seg.pt  (nano - smallest, fastest)'' \<in> set banner
   \<and> resolve_output_name (cli_model_name [prog]) None = ''yolov8n-seg.onnx''
   \<and> cli_model_name (prog # arg # rest) = (if endswith arg ''.pt'' then arg else arg @ ''.pt'')
   \<and> (fst (convert_yolo_script E argv w) = Exit 0 \<longrightarrow>
        success_line (resolve_output_name (cli_model_name argv) None)
          \<in> set (stdout (snd (convert_yolo_script E argv w))))
   \<and> contains (success_line output_name) output_name"
proof -
  have "success_line (resolve_output_name (cli_model_name argv) None)
          \<in> set (stdout (snd (convert_yolo_script E argv w)))"
    if "fst (convert_yolo_script E argv w) = Exit 0"
  proof -
    from that have "convert_yolo_script E argv w = (Exit 0, snd (convert_yolo_script E argv w))"
      by (metis prod.collapse)
    then obtain w1 where
      "convert_model E (cli_model_name argv) None w1 = (Inr True, snd (convert_yolo_script E argv w))"
      using convert_yolo_script_Exit0 by blast
    then show ?thesis by (rule convert_model_True(1))
  qed
  moreover have "contains (success_line output_name) output_name"
    using contains_suffix [of "nl @ check_mark @ '' Success! ONNX model created: ''" output_name]
    by (simp add: success_line_def)
  moreover have "resolve_output_name (cli_model_name [prog]) None = ''yolov8n-seg.onnx''"
    by (simp add: cli_model_name_def resolve_output_name_def replace_def startswith_def)
  moreover have "''  - yolov8n-seg.pt  (nano - smallest, fastest)'' \<in> set banner"
    by (simp add: banner_def)
  ultimately show ?thesis
    by (simp add: cli_model_name_def add_pt_suffix_def)
qed

theorem exporter_default_name_and_success_line_witness:
  "fst (convert_yolo_script yolo_env_ok [''convert_yolo.py''] empty_world) = Exit 0
   \<and> success_line ''yolov8n-seg.onnx''
        \<in> set (stdout (snd (convert_yolo_script yolo_env_ok [''convert_yolo.py''] empty_world)))"
proof -
  have e: "fst (convert_yolo_script yolo_env_ok [''convert_yolo.py''] empty_world) = Exit 0"
    by (simp add: convert_yolo_script_def convert_model_def yolo_env_ok_def empty_world_def
        cli_model_name_def resolve_output_name_def replace_def startswith_def
        stmt_defs world_defs YOLO_def export_onnx_def Let_def)
  have n: "resolve_output_name (cli_model_name [''convert_yolo.py'']) None = ''yolov8n-seg.onnx''"
    by (simp add: cli_model_name_def resolve_output_name_def replace_def startswith_def)
  show ?thesis
    using e n exporter_default_name_and_success_line
      [where E = yolo_env_ok and argv = "[''convert_yolo.py'']" and w = empty_world
         and prog = "''convert_yolo.py''" and arg = "''yolov8n-seg''" and rest = "[]"
         and output_name = "''yolov8n-seg.onnx''"]
    by (simp add: cli_model_name_def)
qed

subsection \<open>The mobile-segmentation converter\<close>

lemma create_minimal_model_result:
  "fst (create_minimal_model E w) = Inr (first_success [keras_attempt E minimal_layers])"
  by (simp add: create_minimal_model_def create_model_def keras_attempt_def stmt_defs world_defs
      split: option.splits)

lemma create_simple_segmentation_model_result:
  "fst (create_simple_segmentation_model E w) =
     Inr (first_success [keras_attempt E simple_layers, keras_attempt E minimal_layers])"
  using create_minimal_model_result [of E]
  by (simp add: create_simple_segmentation_model_def create_model_def keras_attempt_def
      stmt_defs world_defs split: option.splits)

lemma download_deeplabv3_model_result:
  "fst (download_deeplabv3_model E w) =
     Inr (first_success
       [hub_attempt E, keras_attempt E simple_layers, keras_attempt E minimal_layers])"
  using create_simple_segmentation_model_result [of E]
  by (simp add: download_deeplabv3_model_def hub_attempt_def
      stmt_defs world_defs split: option.splits sum.splits)

lemma minimal_constructed:
  "keras_attempt E minimal_layers = Inr m \<Longrightarrow> isl (hub_attempt E) \<Longrightarrow> isl (keras_attempt E simple_layers)
   \<Longrightarrow> Keras_Model_call minimal_layers \<in> set (calls (snd (download_deeplabv3_model E w)))"
  by (auto simp add: download_deeplabv3_model_def hub_attempt_def create_simple_segmentation_model_def create_model_def keras_attempt_def
     create_minimal_model_def
      stmt_defs world_defs split: option.splits sum.splits)

text \<open>
  C2. \<^verbatim>\<open>download_deeplabv3_model\<close> returns the model of the first of its three attempts
  (registry download, encoder/decoder network, minimal network) that raises no exception,
  and \<open>None\<close> when all three raise; it never raises itself. In particular, when the registry
  download raises and the construction of the first hand-built network raises, and the
  construction of the minimal network does not, the minimal network is constructed and
  returned; its output layer has 2 classes.
\<close>

theorem fallback_chain_first_success:
  "fst (download_deeplabv3_model E w) =
     Inr (first_success
       [hub_attempt E, keras_attempt E simple_layers, keras_attempt E minimal_layers])
   \<and> (tensorflow_import E = None
        \<and> (hub_import E \<noteq> None \<or> isl (hub_load E hub_url))
        \<and> keras_raises E simple_layers \<noteq> None
        \<and> keras_raises E minimal_layers = None
      \<longrightarrow> fst (download_deeplabv3_model E w) = Inr (Some (Keras_model minimal_layers))
          \<and> Keras_Model_call minimal_layers \<in> set (calls (snd (download_deeplabv3_model E w))))
   \<and> last minimal_layers = Conv2D 2 1 ''softmax'' None"
proof -
  have "fst (download_deeplabv3_model E w) = Inr (Some (Keras_model minimal_layers))
        \<and> Keras_Model_call minimal_layers \<in> set (calls (snd (download_deeplabv3_model E w)))"
    if "tensorflow_import E = None" and "hub_import E \<noteq> None \<or> isl (hub_load E hub_url)"
      and "keras_raises E simple_layers \<noteq> None" and "keras_raises E minimal_layers = None"
  proof -
    from that have a: "isl (hub_attempt E)" "isl (keras_attempt E simple_layers)"
      "keras_attempt E minimal_layers = Inr (Keras_model minimal_layers)"
      by (auto simp: hub_attempt_def keras_attempt_def split: option.splits sum.splits)
    then have "first_success
       [hub_attempt E, keras_attempt E simple_layers, keras_attempt E minimal_layers]
        = Some (Keras_model minimal_layers)"
      by (cases "hub_attempt E"; cases "keras_attempt E simple_layers") simp_all
    with a show ?thesis
      using download_deeplabv3_model_result [of E w] minimal_constructed [of E _ w] by simp
  qed
  moreover have "last minimal_layers = Conv2D 2 1 ''softmax'' None"
    by (simp add: minimal_layers_def)
  ultimately show ?thesis
    using download_deeplabv3_model_result [of E w] by blast
qed

theorem fallback_chain_first_success_witness:
  "tensorflow_import tf_env_fallback = None
   \<and> isl (hub_load tf_env_fallback hub_url)
   \<and> keras_raises tf_env_fallback simple_layers = Some (OtherException ''out of memory'')
   \<and> keras_raises tf_env_fallback minimal_layers = None
   \<and> fst (download_deeplabv3_model tf_env_fallback empty_world)
       = Inr (Some (Keras_model
           [Conv2D 32 3 ''relu'' (Some ''same''),
            Conv2D 32 3 ''relu'' (Some ''same''),
            Conv2D 2 1 ''softmax'' None]))"
proof -
  have h: "tensorflow_import tf_env_fallback = None"
    "isl (hub_load tf_env_fallback hub_url)"
    "keras_raises tf_env_fallback simple_layers = Some (OtherException ''out of memory'')"
    "keras_raises tf_env_fallback minimal_layers = None"
    by (simp_all add: tf_env_fallback_def simple_layers_def minimal_layers_def)
  with fallback_chain_first_success [of tf_env_fallback empty_world]
  have "fst (download_deeplabv3_model tf_env_fallback empty_world)
          = Inr (Some (Keras_model minimal_layers))"
    by blast
  with h show ?thesis by (simp add: minimal_layers_def)
qed

subsection \<open>The engine builder\<close>

text \<open>
  C3. When the hard-coded input \<^verbatim>\<open>models/yolov8n.onnx\<close> does not exist, the engine builder
  ends with exit status 1 having made no call at all (no builder, parser or file-read call:
  the trace is unchanged) and having written no file; with TensorRT installed it ends by
  \<^verbatim>\<open>sys.exit(1)\<close> after printing the error line.
\<close>

theorem engine_builder_missing_input:
  "files w ''models/yolov8n.onnx'' = None \<longrightarrow>
     exit_status (fst (build_trt_engine_script E argv w)) = 1
     \<and> calls (snd (build_trt_engine_script E argv w)) = calls w
     \<and> files (snd (build_trt_engine_script E argv w)) = files w
     \<and> (tensorrt_import E = None \<longrightarrow>
          build_trt_engine_script E argv w =
            (Exit 1, w\<lparr>stdout := stdout w @ [''Error: models/yolov8n.onnx not found!'']\<rparr>))"
  by (simp add: build_trt_engine_script_def split: option.splits)

theorem engine_builder_missing_input_witness:
  "files empty_world ''models/yolov8n.onnx'' = None
   \<and> tensorrt_import trt_env_ok = None
   \<and> build_trt_engine_script trt_env_ok [''build_trt_engine.py''] empty_world =
       (Exit 1, \<lparr>files = Map.empty, stdout = [''Error: models/yolov8n.onnx not found!''], calls = []\<rparr>)"
  using engine_builder_missing_input [of empty_world trt_env_ok "[''build_trt_engine.py'']"]
  by (simp add: empty_world_def trt_env_ok_def)

subsection \<open>The mobile-segmentation converter: writing the output\<close>

lemma make_converter_world:
  "fst (make_converter E model w) = fst (make_converter E model w')"
  by (simp add: make_converter_def stmt_defs world_defs split: tf_model.splits)

lemma make_converter_frame:
  "files (snd (make_converter E model w)) = files w
   \<and> stdout (snd (make_converter E model w)) = stdout w
   \<and> (Open_wb_call p \<in> set (calls (snd (make_converter E model w))) \<longrightarrow> Open_wb_call p \<in> set (calls w))"
  by (simp add: make_converter_def stmt_defs world_defs split: tf_model.splits)

lemma convert_raises_False:
  assumes "converter_convert E model = Inl e"
  shows "fst (convert_to_tflite E model output_path w) = Inr False"
    and "files (snd (convert_to_tflite E model output_path w)) = files w"
    and "Open_wb_call p \<in> set (calls (snd (convert_to_tflite E model output_path w)))
         \<Longrightarrow> Open_wb_call p \<in> set (calls w)"
  using assms
  by (auto simp: convert_to_tflite_def make_converter_def stmt_defs world_defs
      split: option.splits sum.splits prod.splits tf_model.splits if_splits)

lemma open_only_after_convert:
  assumes "Open_wb_call p \<in> set (calls (snd (convert_to_tflite E model output_path w)))"
    and "Open_wb_call p \<notin> set (calls w)"
  shows "\<exists>bytes. converter_convert E model = Inr bytes
           \<and> Convert_call \<in> set (calls (snd (convert_to_tflite E model output_path w)))"
  using assms
  by (auto simp: convert_to_tflite_def make_converter_def stmt_defs world_defs
      split: option.splits sum.splits prod.splits tf_model.splits if_splits wresult.splits)

lemma convert_returns_written:
  assumes "tensorflow_import E = None"
    and "fst (make_converter E model w) = Inr ()"
    and "converter_convert E model = Inr bytes"
    and "tf_write E output_path bytes = Written"
  shows "fst (convert_to_tflite E model output_path w) = Inr True"
    and "files (snd (convert_to_tflite E model output_path w)) = (files w)(output_path \<mapsto> bytes)"
  using assms
  by (auto simp: convert_to_tflite_def make_converter_def stmt_defs world_defs
      split: option.splits sum.splits prod.splits tf_model.splits if_splits wresult.splits)

lemma open_follows_convert:
  assumes "Open_wb_call p \<in> set (calls (snd (convert_to_tflite E model output_path w)))"
    and "Open_wb_call p \<notin> set (calls w)"
  shows "\<exists>pre. calls (snd (convert_to_tflite E model output_path w))
           = calls w @ pre @ [Convert_call, Open_wb_call output_path]"
  using assms
  by (auto simp: convert_to_tflite_def make_converter_def stmt_defs world_defs
      split: option.splits sum.splits prod.splits tf_model.splits if_splits wresult.splits)

text \<open>
  C10. \<^verbatim>\<open>convert_to_tflite\<close> opens the output file only after \<^verbatim>\<open>converter.convert()\<close> has
  returned: whenever the run opens a file for writing, \<^verbatim>\<open>convert()\<close> returned bytes and the
  open of the output path is the call right after it. So when \<^verbatim>\<open>convert()\<close> raises, the
  function returns \<open>False\<close>, no file is opened for writing and the files are as they were
  (the output path is neither created nor truncated); and when the import, the converter
  constructor and \<^verbatim>\<open>convert()\<close> go through and the write completes, the returned bytes are
  the content of the output path and the function returns \<open>True\<close>.
\<close>

theorem tflite_output_opened_after_convert:
  "(let r = convert_to_tflite E model output_path w in
     (converter_convert E model = Inl e \<longrightarrow>
        fst r = Inr False
        \<and> files (snd r) = files w
        \<and> (Open_wb_call p \<in> set (calls (snd r)) \<longrightarrow> Open_wb_call p \<in> set (calls w)))
     \<and> (Open_wb_call p \<in> set (calls (snd r)) \<and> Open_wb_call p \<notin> set (calls w) \<longrightarrow>
          (\<exists>bytes. converter_convert E model = Inr bytes)
          \<and> (\<exists>pre. calls (snd r) = calls w @ pre @ [Convert_call, Open_wb_call output_path]))
     \<and> (tensorflow_import E = None
          \<and> fst (make_converter E model w) = Inr ()
          \<and> converter_convert E model = Inr bytes
          \<and> tf_write E output_path bytes = Written \<longrightarrow>
          fst r = Inr True
          \<and> files (snd r) = (files w)(output_path \<mapsto> bytes)))"
proof -
  have a: "fst (convert_to_tflite E model output_path w) = Inr False
        \<and> files (snd (convert_to_tflite E model output_path w)) = files w
        \<and> (Open_wb_call p \<in> set (calls (snd (convert_to_tflite E model output_path w)))
             \<longrightarrow> Open_wb_call p \<in> set (calls w))"
    if "converter_convert E model = Inl e"
    using that convert_raises_False by blast
  have b: "(\<exists>bytes. converter_convert E model = Inr bytes)
        \<and> (\<exists>pre. calls (snd (convert_to_tflite E model output_path w))
               = calls w @ pre @ [Convert_call, Open_wb_call output_path])"
    if "Open_wb_call p \<in> set (calls (snd (convert_to_tflite E model output_path w)))"
      and "Open_wb_call p \<notin> set (calls w)"
    using that open_only_after_convert open_follows_convert by blast
  have c: "fst (convert_to_tflite E model output_path w) = Inr True
        \<and> files (snd (convert_to_tflite E model output_path w)) = (files w)(output_path \<mapsto> bytes)"
    if "tensorflow_import E = None" and "fst (make_converter E model w) = Inr ()"
      and "converter_convert E model = Inr bytes" and "tf_write E output_path bytes = Written"
    using that convert_returns_written by blast
  from a b c show ?thesis unfolding Let_def by blast
qed

theorem tflite_output_opened_after_convert_witness:
  "converter_convert tf_env_convert_raises (Keras_model minimal_layers)
     = Inl (OtherException ''unsupported op'')
   \<and> fst (convert_to_tflite tf_env_convert_raises (Keras_model minimal_layers)
            ''deeplabv3.tflite'' world_with_old_output) = Inr False
   \<and> files (snd (convert_to_tflite tf_env_convert_raises (Keras_model minimal_layers)
            ''deeplabv3.tflite'' world_with_old_output)) ''deeplabv3.tflite'' = Some ''old model''
   \<and> tensorflow_import tf_env_fallback = None
   \<and> fst (make_converter tf_env_fallback (Keras_model minimal_layers) world_with_old_output) = Inr ()
   \<and> converter_convert tf_env_fallback (Keras_model minimal_layers) = Inr ''tflite bytes''
   \<and> tf_write tf_env_fallback ''deeplabv3.tflite'' ''tflite bytes'' = Written
   \<and> fst (convert_to_tflite tf_env_fallback (Keras_model minimal_layers)
            ''deeplabv3.tflite'' world_with_old_output) = Inr True
   \<and> files (snd (convert_to_tflite tf_env_fallback (Keras_model minimal_layers)
            ''deeplabv3.tflite'' world_with_old_output)) ''deeplabv3.tflite'' = Some ''tflite bytes''
   \<and> calls (snd (convert_to_tflite tf_env_fallback (Keras_model minimal_layers)
            ''deeplabv3.tflite'' world_with_old_output))
       = [From_keras_model_call (Keras_model minimal_layers), Convert_call,
          Open_wb_call ''deeplabv3.tflite'']"
proof -
  have h1: "converter_convert tf_env_convert_raises (Keras_model minimal_layers)
     = Inl (OtherException ''unsupported op'')"
    by (simp add: tf_env_convert_raises_def)
  have h2: "tensorflow_import tf_env_fallback = None"
    "fst (make_converter tf_env_fallback (Keras_model minimal_layers) world_with_old_output) = Inr ()"
    "converter_convert tf_env_fallback (Keras_model minimal_layers) = Inr ''tflite bytes''"
    "tf_write tf_env_fallback ''deeplabv3.tflite'' ''tflite bytes'' = Written"
    by (simp_all add: tf_env_fallback_def make_converter_def stmt_defs world_defs)
  have c: "calls (snd (convert_to_tflite tf_env_fallback (Keras_model minimal_layers)
            ''deeplabv3.tflite'' world_with_old_output))
       = [From_keras_model_call (Keras_model minimal_layers), Convert_call,
          Open_wb_call ''deeplabv3.tflite'']"
    by (simp add: convert_to_tflite_def tf_env_fallback_def make_converter_def
        world_with_old_output_def stmt_defs world_defs)
  have o: "files world_with_old_output ''deeplabv3.tflite'' = Some ''old model''"
    by (simp add: world_with_old_output_def)
  from h1 h2 c o show ?thesis
    using tflite_output_opened_after_convert
      [where E = tf_env_convert_raises and model = "Keras_model minimal_layers"
         and output_path = "''deeplabv3.tflite''" and w = world_with_old_output
         and e = "OtherException ''unsupported op''" and p = "''deeplabv3.tflite''"
         and bytes = "''tflite bytes''"]
      tflite_output_opened_after_convert
      [where E = tf_env_fallback and model = "Keras_model minimal_layers"
         and output_path = "''deeplabv3.tflite''" and w = world_with_old_output
         and e = "OtherException ''unsupported op''" and p = "''deeplabv3.tflite''"
         and bytes = "''tflite bytes''"]
    by (simp add: Let_def)
qed

subsection \<open>A conversion that yields nothing\<close>

lemmas build_engine_defs = build_engine_def trt_call_def stmt_defs world_defs

lemma build_engine_None:
  assumes "files w onnx_path = Some onnx"
    and "build_serialized_network E onnx = Inr None"
  shows "fst (build_engine E onnx_path engine_path w) \<noteq> Inr True"
    and "files (snd (build_engine E onnx_path engine_path w)) = files w"
    and "Open_wb_call p \<in> set (calls (snd (build_engine E onnx_path engine_path w)))
         \<Longrightarrow> Open_wb_call p \<in> set (calls w)"
  using assms
  by (auto simp: build_engine_defs
      split: option.splits sum.splits prod.splits if_splits)

lemma build_engine_None_called:
  assumes "files w onnx_path = Some onnx"
    and "build_serialized_network E onnx = Inr None"
    and "Build_serialized_network_call \<in> set (calls (snd (build_engine E onnx_path engine_path w)))"
    and "Build_serialized_network_call \<notin> set (calls w)"
  shows "fst (build_engine E onnx_path engine_path w) = Inr False"
    and "last (stdout (snd (build_engine E onnx_path engine_path w))) = ''Failed to build engine''"
  using assms
  by (auto simp: build_engine_defs
      split: option.splits sum.splits prod.splits if_splits)

lemma build_engine_True:
  assumes "fst (build_engine E onnx_path engine_path w) = Inr True"
  shows "\<exists>onnx engine. files w onnx_path = Some onnx
           \<and> build_serialized_network E onnx = Inr (Some engine)
           \<and> files (snd (build_engine E onnx_path engine_path w)) = (files w)(engine_path \<mapsto> engine)"
  using assms
  by (auto simp: build_engine_defs
      split: option.splits sum.splits prod.splits if_splits wresult.splits)

lemma build_trt_engine_script_None:
  assumes "files w ''models/yolov8n.onnx'' = Some onnx"
    and "build_serialized_network E onnx = Inr None"
  shows "exit_status (fst (build_trt_engine_script E argv w)) = 1"
    and "files (snd (build_trt_engine_script E argv w)) = files w"
proof -
  let ?r = "build_engine E ''models/yolov8n.onnx'' ''models/yolov8n_fp16.engine'' w"
  have a: "fst ?r \<noteq> Inr True" and b: "files (snd ?r) = files w"
    using assms build_engine_None by blast+
  obtain x w' where r: "?r = (x, w')" by (cases ?r)
  with a b have "x \<noteq> Inr True" "files w' = files w" by simp_all
  then have "exit_status (fst (sys_exit (\<lambda>w. ?r) w)) = 1 \<and> files (snd (sys_exit (\<lambda>w. ?r) w)) = files w"
    using r by (cases x) (auto simp: sys_exit_def)
  then show "exit_status (fst (build_trt_engine_script E argv w)) = 1"
    and "files (snd (build_trt_engine_script E argv w)) = files w"
    using assms(1)
    by (simp_all add: build_trt_engine_script_def sys_exit_def Let_def split: option.splits)
qed

lemma convert_yolo_script_absent:
  assumes "files (snd (convert_yolo_script Y argv v))
             (resolve_output_name (cli_model_name argv) None) = None"
  shows "exit_status (fst (convert_yolo_script Y argv v)) = 1"
proof (cases "ultralytics_import Y")
  case (Some e)
  then show ?thesis by (simp add: convert_yolo_script_def)
next
  case None
  define v1 where "v1 = v\<lparr>stdout := stdout v @ banner @
     [nl @ ''Converting: '' @ cli_model_name argv,
      ''(This may take a few minutes on first run as it downloads the model)'' @ nl]\<rparr>"
  obtain x v' where r: "convert_model Y (cli_model_name argv) None v1 = (x, v')"
    by (cases "convert_model Y (cli_model_name argv) None v1")
  have s: "convert_yolo_script Y argv v =
     (case x of Inr success \<Rightarrow> (Exit (if success then 0 else 1), v') | Inl e \<Rightarrow> (Uncaught e, v'))"
    using None r
    by (simp add: convert_yolo_script_def sys_exit_def seq_def print_all_def Let_def v1_def
        split: sum.splits)
  with assms have "files v' (resolve_output_name (cli_model_name argv) None) = None"
    by (cases x) simp_all
  with r have "x = Inr False" by (rule convert_model_absent)
  with s show ?thesis by simp
qed

text \<open>
  C6. When the conversion call yields nothing, the wrapper fails and the process exits with
  status 1. Engine builder: when \<^verbatim>\<open>build_serialized_network\<close> is \<^verbatim>\<open>None\<close> for the input
  read, \<^verbatim>\<open>build_engine\<close> does not return \<open>True\<close> and writes no file (returning \<open>False\<close> when
  the build call was reached), and the script ends with status 1. Detection-model exporter:
  when the expected output file is absent at the end of \<^verbatim>\<open>convert_model\<close>, it returns
  \<open>False\<close> and the script ends with status 1. And a \<open>True\<close> of \<^verbatim>\<open>build_engine\<close> means the
  engine path holds all the bytes the builder returned.
\<close>

theorem empty_conversion_result_fails:
  "(files w onnx_path = Some onnx \<and> build_serialized_network E onnx = Inr None \<longrightarrow>
      (let r = build_engine E onnx_path engine_path w in
         fst r \<noteq> Inr True
         \<and> files (snd r) = files w
         \<and> (Build_serialized_network_call \<in> set (calls (snd r))
              \<and> Build_serialized_network_call \<notin> set (calls w) \<longrightarrow> fst r = Inr False)))
   \<and> (files w ''models/yolov8n.onnx'' = Some onnx \<and> build_serialized_network E onnx = Inr None \<longrightarrow>
      (let r = build_trt_engine_script E argv w in
         exit_status (fst r) = 1 \<and> files (snd r) = files w))
   \<and> (let r = convert_model Y model_name output_name v in
        files (snd r) (resolve_output_name model_name output_name) = None \<longrightarrow> fst r = Inr False)
   \<and> (let r = convert_yolo_script Y args v in
        files (snd r) (resolve_output_name (cli_model_name args) None) = None \<longrightarrow>
        exit_status (fst r) = 1)
   \<and> (let r = build_engine E onnx_path engine_path w in
        fst r = Inr True \<longrightarrow>
        (\<exists>data engine. files w onnx_path = Some data
           \<and> build_serialized_network E data = Inr (Some engine)
           \<and> files (snd r) = (files w)(engine_path \<mapsto> engine)))"
proof -
  have a: "fst (build_engine E onnx_path engine_path w) \<noteq> Inr True
      \<and> files (snd (build_engine E onnx_path engine_path w)) = files w
      \<and> (Build_serialized_network_call \<in> set (calls (snd (build_engine E onnx_path engine_path w)))
           \<and> Build_serialized_network_call \<notin> set (calls w)
          \<longrightarrow> fst (build_engine E onnx_path engine_path w) = Inr False)"
    if "files w onnx_path = Some onnx" and "build_serialized_network E onnx = Inr None"
    using that build_engine_None(1,2) build_engine_None_called(1) by blast
  have b: "exit_status (fst (build_trt_engine_script E argv w)) = 1
      \<and> files (snd (build_trt_engine_script E argv w)) = files w"
    if "files w ''models/yolov8n.onnx'' = Some onnx" and "build_serialized_network E onnx = Inr None"
    using that build_trt_engine_script_None by blast
  have c: "fst (convert_model Y model_name output_name v) = Inr False"
    if "files (snd (convert_model Y model_name output_name v))
          (resolve_output_name model_name output_name) = None"
    using that convert_model_absent [of Y model_name output_name v] by (metis prod.collapse)
  have d: "exit_status (fst (convert_yolo_script Y args v)) = 1"
    if "files (snd (convert_yolo_script Y args v))
          (resolve_output_name (cli_model_name args) None) = None"
    using that by (rule convert_yolo_script_absent)
  have e: "\<exists>data engine. files w onnx_path = Some data
           \<and> build_serialized_network E data = Inr (Some engine)
           \<and> files (snd (build_engine E onnx_path engine_path w)) = (files w)(engine_path \<mapsto> engine)"
    if "fst (build_engine E onnx_path engine_path w) = Inr True"
    using that by (rule build_engine_True)
  from a b c d e show ?thesis unfolding Let_def by blast
qed

theorem empty_conversion_result_fails_witness:
  "files world_with_onnx ''models/yolov8n.onnx'' = Some ''onnx graph''
   \<and> build_serialized_network trt_env_no_engine ''onnx graph'' = Inr None
   \<and> fst (build_engine trt_env_no_engine ''models/yolov8n.onnx'' ''models/yolov8n_fp16.engine''
          world_with_onnx) = Inr False
   \<and> files (snd (build_engine trt_env_no_engine ''models/yolov8n.onnx''
          ''models/yolov8n_fp16.engine'' world_with_onnx)) ''models/yolov8n_fp16.engine'' = None
   \<and> fst (build_trt_engine_script trt_env_no_engine [''build_trt_engine.py''] world_with_onnx)
        = Exit 1
   \<and> files (snd (convert_model yolo_env_no_output ''yolov8n-seg.pt'' None empty_world))
        (resolve_output_name ''yolov8n-seg.pt'' None) = None
   \<and> fst (convert_model yolo_env_no_output ''yolov8n-seg.pt'' None empty_world) = Inr False
   \<and> fst (convert_yolo_script yolo_env_no_output [''convert_yolo.py''] empty_world) = Exit 1
   \<and> fst (build_engine trt_env_ok ''models/yolov8n.onnx'' ''models/yolov8n_fp16.engine''
          world_with_onnx) = Inr True
   \<and> files (snd (build_engine trt_env_ok ''models/yolov8n.onnx''
          ''models/yolov8n_fp16.engine'' world_with_onnx)) ''models/yolov8n_fp16.engine''
        = Some ''engine of onnx graph''"
proof -
  have g: "fst (build_engine trt_env_ok ''models/yolov8n.onnx'' ''models/yolov8n_fp16.engine''
          world_with_onnx) = Inr True"
    "files (snd (build_engine trt_env_ok ''models/yolov8n.onnx''
          ''models/yolov8n_fp16.engine'' world_with_onnx)) ''models/yolov8n_fp16.engine''
        = Some ''engine of onnx graph''"
    by (simp_all add: build_engine_defs trt_env_ok_def world_with_onnx_def)
  have h: "files world_with_onnx ''models/yolov8n.onnx'' = Some ''onnx graph''"
    "build_serialized_network trt_env_no_engine ''onnx graph'' = Inr None"
    by (simp_all add: world_with_onnx_def trt_env_no_engine_def)
  have t: "build_engine trt_env_no_engine ''models/yolov8n.onnx'' ''models/yolov8n_fp16.engine''
          world_with_onnx =
      (Inr False, world_with_onnx
         \<lparr>stdout := [''Loading ONNX file: models/yolov8n.onnx'',
                     ''Building TensorRT engine (this may take a few minutes)...'',
                     ''Failed to build engine''],
          calls := [Logger_call, Builder_call, Create_network_call 1, OnnxParser_call,
                    Open_rb_call ''models/yolov8n.onnx'', Parse_call ''onnx graph'',
                    Create_builder_config_call, Set_memory_pool_limit_call 4294967296,
                    Set_flag_FP16_call, Build_serialized_network_call]\<rparr>)"
    by (simp add: build_engine_defs trt_env_no_engine_def trt_env_ok_def world_with_onnx_def)
  have s: "fst (build_trt_engine_script trt_env_no_engine [''build_trt_engine.py''] world_with_onnx)
        = Exit 1"
    using t by (simp add: build_trt_engine_script_def sys_exit_def Let_def trt_env_no_engine_def
        trt_env_ok_def world_with_onnx_def)
  have y: "convert_model yolo_env_no_output ''yolov8n-seg.pt'' None empty_world =
      (Inr False, \<lparr>files = [''yolov8n-seg.pt'' \<mapsto> ''weights''],
         stdout = [''Loading YOLOv8 model: yolov8n-seg.pt'',
                   ''Note: This will download the model if it'' @ quote @ ''s not already cached.'',
                   nl @ ''Converting to ONNX format...'',
                   ''Output file: yolov8n-seg.onnx'',
                   nl @ cross_mark @ '' Error: Output file yolov8n-seg.onnx was not created''],
         calls = [YOLO_call ''yolov8n-seg.pt'', Export_call ''onnx'' 640 11]\<rparr>)"
    by (simp add: convert_model_def yolo_env_no_output_def yolo_env_ok_def empty_world_def
        resolve_output_name_def replace_def startswith_def
        stmt_defs world_defs YOLO_def export_onnx_def Let_def)
  have n: "resolve_output_name ''yolov8n-seg.pt'' None = ''yolov8n-seg.onnx''"
    by (simp add: resolve_output_name_def replace_def startswith_def)
  have z: "fst (convert_yolo_script yolo_env_no_output [''convert_yolo.py''] empty_world) = Exit 1"
    by (simp add: convert_yolo_script_def Let_def
        cli_model_name_def yolo_env_no_output_def yolo_env_ok_def empty_world_def
        convert_model_def resolve_output_name_def replace_def startswith_def
        stmt_defs world_defs YOLO_def export_onnx_def)
  from h t s y n z g show ?thesis
    using empty_conversion_result_fails
      [where w = world_with_onnx and onnx_path = "''models/yolov8n.onnx''"
         and onnx = "''onnx graph''" and E = trt_env_ok
         and engine_path = "''models/yolov8n_fp16.engine''"
         and argv = "[''build_trt_engine.py'']"
         and Y = yolo_env_no_output and model_name = "''yolov8n-seg.pt''"
         and output_name = None and v = empty_world and args = "[''convert_yolo.py'']"]
      empty_conversion_result_fails
      [where w = world_with_onnx and onnx_path = "''models/yolov8n.onnx''"
         and onnx = "''onnx graph''" and E = trt_env_no_engine
         and engine_path = "''models/yolov8n_fp16.engine''"
         and argv = "[''build_trt_engine.py'']"
         and Y = yolo_env_no_output and model_name = "''yolov8n-seg.pt''"
         and output_name = None and v = empty_world and args = "[''convert_yolo.py'']"]
    by (simp add: world_with_onnx_def)
qed

subsection \<open>The landmark-model exporter\<close>

text \<open>
  C9. \<^verbatim>\<open>export_hand_landmark\<close> raises \<^verbatim>\<open>ValueError\<close> for every model type other than
  \<^verbatim>\<open>lite\<close> and \<^verbatim>\<open>full\<close>, and \<^verbatim>\<open>FileNotFoundError\<close> when the bundled model of a known
  type does not exist; in both cases it leaves the world as it found it: the file system is
  unchanged and neither \<^verbatim>\<open>mkdir\<close> nor the converter has been called.
\<close>

theorem export_errors_leave_filesystem_unchanged:
  "(model_type \<noteq> ''lite'' \<and> model_type \<noteq> ''full'' \<longrightarrow>
      export_hand_landmark E output_path model_type w =
        (Inl (ValueError ''model_type must be one of: lite, full''), w))
   \<and> (map_of MODEL_FILES model_type = Some model_name
        \<and> \<not> fs_exists E (fs w) (joinpath E (MODEL_DIR E) model_name) \<longrightarrow>
      export_hand_landmark E output_path model_type w =
        (Inl (FileNotFoundError
               (''Could not locate '' @ str_of E (joinpath E (MODEL_DIR E) model_name))), w))"
  by (simp add: export_hand_landmark_def MODEL_FILES_def stmt_defs Let_def)

theorem export_errors_leave_filesystem_unchanged_witness:
  "''tiny'' \<noteq> ''lite'' \<and> ''tiny'' \<noteq> ''full''
   \<and> export_hand_landmark mp_env_ok ''out/hand.onnx'' ''tiny'' mp_world_installed =
        (Inl (ValueError ''model_type must be one of: lite, full''), mp_world_installed)
   \<and> map_of MODEL_FILES ''lite'' = Some ''hand_landmark_lite.tflite''
   \<and> \<not> fs_exists mp_env_ok (fs mp_world_bare)
          (joinpath mp_env_ok (MODEL_DIR mp_env_ok) ''hand_landmark_lite.tflite'')
   \<and> export_hand_landmark mp_env_ok ''out/hand.onnx'' ''lite'' mp_world_bare =
        (Inl (FileNotFoundError
           ''Could not locate /site-packages/mediapipe/modules/hand_landmark/hand_landmark_lite.tflite''),
         mp_world_bare)"
proof -
  have h: "map_of MODEL_FILES ''lite'' = Some ''hand_landmark_lite.tflite''"
    "\<not> fs_exists mp_env_ok (fs mp_world_bare)
          (joinpath mp_env_ok (MODEL_DIR mp_env_ok) ''hand_landmark_lite.tflite'')"
    by (simp_all add: MODEL_FILES_def mp_env_ok_def mp_world_bare_def)
  have s: "str_of mp_env_ok (joinpath mp_env_ok (MODEL_DIR mp_env_ok) ''hand_landmark_lite.tflite'')
     = ''/site-packages/mediapipe/modules/hand_landmark/hand_landmark_lite.tflite''"
    by (simp add: mp_env_ok_def MODEL_DIR_def)
  from h s show ?thesis
    using export_errors_leave_filesystem_unchanged
        [of "''tiny''" mp_env_ok "''out/hand.onnx''" mp_world_installed "''x''"]
      export_errors_leave_filesystem_unchanged
        [of "''lite''" mp_env_ok "''out/hand.onnx''" mp_world_bare "''hand_landmark_lite.tflite''"]
    by simp
qed


subsection \<open>A missing dependency\<close>

text \<open>
  The import of line 13 of \<^verbatim>\<open>convert_yolo.py\<close> is outside the \<^verbatim>\<open>try\<close> whose handler
  prints the install hint.
\<close>

lemma convert_yolo_import_uncaught:
  "ultralytics_import Y = Some e \<Longrightarrow> convert_yolo_script Y argv w = (Uncaught e, w)"
  by (simp add: convert_yolo_script_def)

text \<open>
  C1 as stated fails: with TensorRT not installed the engine builder ends with the
  uncaught \<^verbatim>\<open>ImportError\<close> of its first line and has printed nothing, so no install
  instruction.
\<close>

theorem missing_dependency_counterexample:
  "build_trt_engine_script trt_env_missing [''build_trt_engine.py''] world_with_onnx =
     (Uncaught (ImportError (''No module named '' @ quote @ ''tensorrt'' @ quote)), world_with_onnx)
   \<and> exit_status (fst (build_trt_engine_script trt_env_missing [''build_trt_engine.py'']
        world_with_onnx)) = 1
   \<and> stdout (snd (build_trt_engine_script trt_env_missing [''build_trt_engine.py'']
        world_with_onnx)) = []"
  by (simp add: build_trt_engine_script_def trt_env_missing_def trt_env_ok_def
      world_with_onnx_def)

text \<open>
  C1, amended. When \<^verbatim>\<open>import tensorflow\<close> raises \<^verbatim>\<open>ImportError\<close> (and numpy is there),
  the mobile-segmentation converter prints the error, \<^verbatim>\<open>Please install required packages:\<close>
  and \<^verbatim>\<open>pip install tensorflow tensorflow-hub\<close>, and exits with status 1 through
  \<^verbatim>\<open>sys.exit\<close>, with no exception left uncaught. The engine builder and the landmark-model
  exporter import their packages at module level with no handler: when an import raises,
  the run ends with that exception uncaught and nothing printed or changed.
\<close>

theorem missing_dependency_handling:
  "(numpy_import T = None \<and> tensorflow_import T = Some (ImportError m) \<longrightarrow>
      download_tflite_script T argv w =
        (Exit 1, w\<lparr>stdout := stdout w @
           [''TensorFlow Lite DeepLabv3 Model Converter'',
            replicate 40 CHR ''='',
            ''Error: '' @ m,
            ''Please install required packages:'',
            ''pip install tensorflow tensorflow-hub'']\<rparr>))
   \<and> (tensorrt_import E = Some e \<longrightarrow> build_trt_engine_script E argv w = (Uncaught e, w))
   \<and> (mediapipe_import M = Some e \<longrightarrow> export_mediapipe_hands_script M argv u = (Uncaught e, u))
   \<and> (mediapipe_import M = None \<and> tflite2onnx_import M = Some e \<longrightarrow>
        export_mediapipe_hands_script M argv u = (Uncaught e, u))"
  by (simp add: download_tflite_script_def main_tflite_def check_tensorflow_def
      build_trt_engine_script_def export_mediapipe_hands_script_def stmt_defs world_defs)

theorem missing_dependency_handling_witness:
  "numpy_import tf_env_missing = None
   \<and> tensorflow_import tf_env_missing
        = Some (ImportError (''No module named '' @ quote @ ''tensorflow'' @ quote))
   \<and> download_tflite_script tf_env_missing [''download_tflite_model.py''] empty_world =
        (Exit 1, \<lparr>files = Map.empty,
           stdout =
             [''TensorFlow Lite DeepLabv3 Model Converter'',
              replicate 40 CHR ''='',
              ''Error: No module named '' @ quote @ ''tensorflow'' @ quote,
              ''Please install required packages:'',
              ''pip install tensorflow tensorflow-hub''],
           calls = []\<rparr>)
   \<and> contains ''pip install tensorflow tensorflow-hub'' ''install''
   \<and> build_trt_engine_script trt_env_missing [''build_trt_engine.py''] empty_world =
        (Uncaught (ImportError (''No module named '' @ quote @ ''tensorrt'' @ quote)), empty_world)
   \<and> export_mediapipe_hands_script mp_env_missing
        [''export_mediapipe_hands.py'', ''--output'', ''out/hand.onnx''] mp_world_installed =
        (Uncaught (ImportError (''No module named '' @ quote @ ''mediapipe'' @ quote)),
         mp_world_installed)
   \<and> mediapipe_import mp_env_no_converter = None
   \<and> export_mediapipe_hands_script mp_env_no_converter
        [''export_mediapipe_hands.py'', ''--output'', ''out/hand.onnx''] mp_world_installed =
        (Uncaught (ImportError (''No module named '' @ quote @ ''tflite2onnx'' @ quote)),
         mp_world_installed)"
proof -
  have h: "numpy_import tf_env_missing = None"
    "tensorflow_import tf_env_missing
        = Some (ImportError (''No module named '' @ quote @ ''tensorflow'' @ quote))"
    "tensorrt_import trt_env_missing
        = Some (ImportError (''No module named '' @ quote @ ''tensorrt'' @ quote))"
    "mediapipe_import mp_env_missing
        = Some (ImportError (''No module named '' @ quote @ ''mediapipe'' @ quote))"
    by (simp_all add: tf_env_missing_def tf_env_fallback_def trt_env_missing_def
        mp_env_missing_def)
  have k: "mediapipe_import mp_env_no_converter = None"
    "tflite2onnx_import mp_env_no_converter
        = Some (ImportError (''No module named '' @ quote @ ''tflite2onnx'' @ quote))"
    by (simp_all add: mp_env_no_converter_def mp_env_ok_def)
  have c: "contains ''pip install tensorflow tensorflow-hub'' ''install''"
    by (simp add: startswith_def)
  from h k c show ?thesis
    using missing_dependency_handling
        [where T = tf_env_missing
           and argv = "[''export_mediapipe_hands.py'', ''--output'', ''out/hand.onnx'']"
           and w = empty_world
           and m = "''No module named '' @ quote @ ''tensorflow'' @ quote"
           and E = trt_env_missing
           and e = "ImportError (''No module named '' @ quote @ ''tflite2onnx'' @ quote)"
           and M = mp_env_no_converter and u = mp_world_installed]
      missing_dependency_handling
        [where T = tf_env_missing and argv = "[''download_tflite_model.py'']"
           and w = empty_world
           and m = "''No module named '' @ quote @ ''tensorflow'' @ quote"
           and E = trt_env_missing
           and e = "ImportError (''No module named '' @ quote @ ''tensorrt'' @ quote)"
           and M = mp_env_missing and u = mp_world_installed]
      missing_dependency_handling
        [where T = tf_env_missing
           and argv = "[''export_mediapipe_hands.py'', ''--output'', ''out/hand.onnx'']"
           and w = empty_world
           and m = "''No module named '' @ quote @ ''tensorflow'' @ quote"
           and E = trt_env_missing
           and e = "ImportError (''No module named '' @ quote @ ''mediapipe'' @ quote)"
           and M = mp_env_missing and u = mp_world_installed]
      missing_dependency_handling
        [where T = tf_env_missing and argv = "[''build_trt_engine.py'']"
           and w = empty_world
           and m = "''No module named '' @ quote @ ''tensorflow'' @ quote"
           and E = trt_env_missing
           and e = "ImportError (''No module named '' @ quote @ ''tensorrt'' @ quote)"
           and M = mp_env_missing and u = mp_world_installed]
    by (simp add: empty_world_def)
qed

subsection \<open>The command lines and the exit status\<close>
















end
